theory Spec2Isabelle
  imports Complex_Main
begin

section \<open>Data model (types/account.ts)\<close>

text \<open>
  The entity records of the account view. A JavaScript \<open>number\<close> that is only carried
  around (prices, quantities, ratios) is a \<open>real\<close>: no arithmetic is done on these fields
  by the code modelled here. A \<open>string\<close> is a \<open>string\<close>; an optional field is an
  \<open>option\<close>. Field names carry the entity's name as a prefix, because record fields
  share one name space.
\<close>

datatype direction = LONG | SHORT
datatype orderSide = BUY | SELL
datatype orderType = LIMIT | MARKET | STOP | STOP_LIMIT
datatype orderStatus = FILLED | PARTIALLY_FILLED | CANCELED | OPEN | REJECTED

record balance =
  balance_asset :: string
  balance_available :: real
  balance_hold :: real
  balance_usdValue :: real
  balance_allocation :: real

record pnl =
  pnl_value :: real
  pnl_percentage :: real

record position =
  position_symbol :: string
  position_direction :: direction
  position_size :: real
  position_entryPrice :: real
  position_markPrice :: real
  position_pnl :: pnl
  position_margin :: real
  position_updatedAt :: string
  position_strategy :: "string option"

record order =
  order_id :: string
  order_timestamp :: string
  order_symbol :: string
  order_type :: orderType
  order_side :: orderSide
  order_price :: real
  order_quantity :: real
  order_filledQuantity :: real
  order_status :: orderStatus

record trade =
  trade_id :: string
  trade_orderId :: string
  trade_timestamp :: string
  trade_symbol :: string
  trade_side :: orderSide
  trade_price :: real
  trade_quantity :: real
  trade_fee :: real
  trade_strategy :: "string option"

record performanceMetrics =
  totalReturn :: real
  annualizedReturn :: real
  maxDrawdown :: real
  sharpeRatio :: real
  winRate :: real
  averageWin :: real
  averageLoss :: real
  totalTrades :: real
  winningTrades :: real
  losingTrades :: real
  profitLossToday :: real
  profitLossTotal :: real

datatype timeRange = R_1D | R_1W | R_1M | R_3M | R_6M | R_1Y | R_ALL
datatype performanceRange = PR_TODAY | PR_WEEK | PR_MONTH | PR_YEAR | PR_ALL

record assetHistoryPoint =
  ahp_timestamp :: string
  ahp_total :: real
  ahp_available :: real
  ahp_btcPrice :: "real option"
  ahp_event :: "string option"

record pairStatistic =
  ps_symbol :: string
  ps_trades :: real
  ps_pnl :: real
  ps_winRate :: real

record profitBucket =
  pb_range :: string
  pb_count :: real

record holdingBucket =
  hb_bucket :: string
  hb_count :: real
  hb_avgPnl :: real

record heatmapCell =
  hc_hour :: real
  hc_weekday :: real
  hc_trades :: real
  hc_pnl :: real

record strategyPerformance =
  sp_strategy :: string
  sp_pnl :: real
  sp_winRate :: real
  sp_sharpe :: real
  sp_trades :: real

record totals =
  totals_volume :: real
  totals_fees :: real

record tradeStatistics =
  byPair :: "pairStatistic list"
  profitDistribution :: "profitBucket list"
  holdingDurations :: "holdingBucket list"
  hourlyHeatmap :: "heatmapCell list"
  strategyComparison :: "strategyPerformance list"
  stat_totals :: totals

datatype strategyStatus = running | stopped | paused

record strategy =
  strategy_id :: string
  strategy_name :: string
  strategy_status :: strategyStatus
  strategy_pnl :: real
  strategy_winRate :: real
  strategy_trades :: real
  strategy_description :: "string option"
  strategy_lastUpdated :: string

datatype riskSeverity = risk_info | risk_warning | risk_critical

record riskEvent =
  riskEvent_id :: string
  riskEvent_timestamp :: string
  riskEvent_rule :: string
  riskEvent_severity :: riskSeverity
  riskEvent_details :: string

record riskAlert =
  alert_id :: string
  alert_type :: string
  alert_description :: string
  alert_threshold :: "real option"
  alert_enabled :: bool

record riskMetrics =
  currentExposure :: real
  maxExposure :: real
  leverage :: real
  maxLeverage :: real
  marginUtilization :: real
  var :: real
  riskEvents :: "riskEvent list"
  alerts :: "riskAlert list"

datatype category = cat_order | cat_price | cat_strategy | cat_system
datatype severity = info | success | warning | critical

record notification =
  notification_id :: string
  notification_category :: category
  notification_title :: string
  notification_message :: string
  notification_timestamp :: string
  notification_read :: bool
  notification_severity :: severity

text \<open>
  \<open>side?: OrderSide | 'ALL'\<close> and \<open>status?: OrderStatus | 'ALL'\<close>: the value \<open>'ALL'\<close> is
  a constructor of its own, an absent field is \<open>None\<close>.
\<close>

datatype sideFilter = Side orderSide | Side_ALL
datatype statusFilter = Status orderStatus | Status_ALL

record orderFilters =
  of_start :: "string option"
  of_end :: "string option"
  of_status :: "statusFilter option"
  of_symbol :: "string option"
  of_side :: "sideFilter option"

record tradeFilters =
  tf_start :: "string option"
  tf_end :: "string option"
  tf_symbol :: "string option"
  tf_side :: "sideFilter option"

record accountState =
  balance :: "balance list"
  positions :: "position list"
  orders :: "order list"
  trades :: "trade list"
  performance :: "performanceMetrics option"
  performanceRange :: performanceRange
  assetHistory :: "assetHistoryPoint list"
  assetHistoryRange :: timeRange
  tradeStats :: "tradeStatistics option"
  strategies :: "strategy list"
  risk :: "riskMetrics option"
  notifications :: "notification list"
  loading :: bool
  error :: "string option"
  lastUpdated :: "string option"

text \<open>
  \<open>Partial<AccountState>\<close>, the payload of \<open>SET_STATE\<close>: every key may be absent
  (\<open>None\<close>). The keys whose value type is itself nullable carry a nested option.
\<close>

record statePatch =
  p_balance :: "balance list option"
  p_positions :: "position list option"
  p_orders :: "order list option"
  p_trades :: "trade list option"
  p_performance :: "performanceMetrics option option"
  p_performanceRange :: "performanceRange option"
  p_assetHistory :: "assetHistoryPoint list option"
  p_assetHistoryRange :: "timeRange option"
  p_tradeStats :: "tradeStatistics option option"
  p_strategies :: "strategy list option"
  p_risk :: "riskMetrics option option"
  p_notifications :: "notification list option"
  p_loading :: "bool option"
  p_error :: "string option option"
  p_lastUpdated :: "string option"

definition emptyPatch :: statePatch where
  "emptyPatch = \<lparr> p_balance = None, p_positions = None, p_orders = None, p_trades = None,
     p_performance = None, p_performanceRange = None, p_assetHistory = None,
     p_assetHistoryRange = None, p_tradeStats = None, p_strategies = None, p_risk = None,
     p_notifications = None, p_loading = None, p_error = None, p_lastUpdated = None \<rparr>"

section \<open>The store (context/AccountContext.tsx)\<close>

definition initialState :: accountState where
  "initialState = \<lparr> balance = [], positions = [], orders = [], trades = [],
     performance = None, performanceRange = PR_ALL, assetHistory = [],
     assetHistoryRange = R_1M, tradeStats = None, strategies = [], risk = None,
     notifications = [], loading = False, error = None, lastUpdated = None \<rparr>"

datatype accountAction =
    SET_STATE statePatch
  | SET_LOADING bool
  | SET_ERROR "string option"
  | UPSERT_BALANCES "balance list"
  | UPSERT_POSITION position
  | UPSERT_ORDER order
  | UPSERT_TRADE trade
  | SET_RISK riskMetrics
  | ADD_NOTIFICATION notification
  | SET_NOTIFICATIONS "notification list"
  | MARK_NOTIFICATION string bool
  | SET_STRATEGIES "strategy list"

text \<open>\<open>{ ...state, ...action.payload }\<close>: a key present in the payload replaces the state's.\<close>

definition orElse :: "'a option \<Rightarrow> 'a \<Rightarrow> 'a" where
  "orElse p v = (case p of Some w \<Rightarrow> w | None \<Rightarrow> v)"

definition spreadState :: "accountState \<Rightarrow> statePatch \<Rightarrow> accountState" where
  "spreadState s p = \<lparr>
     balance = orElse (p_balance p) (balance s),
     positions = orElse (p_positions p) (positions s),
     orders = orElse (p_orders p) (orders s),
     trades = orElse (p_trades p) (trades s),
     performance = orElse (p_performance p) (performance s),
     performanceRange = orElse (p_performanceRange p) (performanceRange s),
     assetHistory = orElse (p_assetHistory p) (assetHistory s),
     assetHistoryRange = orElse (p_assetHistoryRange p) (assetHistoryRange s),
     tradeStats = orElse (p_tradeStats p) (tradeStats s),
     strategies = orElse (p_strategies p) (strategies s),
     risk = orElse (p_risk p) (risk s),
     notifications = orElse (p_notifications p) (notifications s),
     loading = orElse (p_loading p) (loading s),
     error = orElse (p_error p) (error s),
     lastUpdated = (case p_lastUpdated p of Some t \<Rightarrow> Some t | None \<Rightarrow> lastUpdated s) \<rparr>"

text \<open>
  \<open>Array.prototype.findIndex\<close>: the index of the first element satisfying the predicate,
  \<open>-1\<close> when there is none.
\<close>

fun findIndex :: "('a \<Rightarrow> bool) \<Rightarrow> 'a list \<Rightarrow> int" where
  "findIndex P [] = - 1"
| "findIndex P (x # xs) =
     (if P x then 0 else (let i = findIndex P xs in if i < 0 then - 1 else i + 1))"

text \<open>
  \<open>new Date(s).getTime()\<close> is a function of the runtime, not of this repository: it is the
  parameter \<open>gt\<close> of everything that parses a timestamp, with \<open>None\<close> for \<open>NaN\<close> (a string
  that is no date). The comparator of the two sorts,
  \<open>(a, b) => new Date(b.timestamp).getTime() - new Date(a.timestamp).getTime()\<close>,
  is \<open>NaN\<close> as soon as one side is. The values of \<open>getTime\<close> are integers, and the sign of
  their difference in double precision is the sign of the exact difference.
\<close>

definition compareDesc :: "(string \<Rightarrow> int option) \<Rightarrow> string \<Rightarrow> string \<Rightarrow> int option" where
  "compareDesc gt ta tb =
     (case (gt tb, gt ta) of (Some b, Some a) \<Rightarrow> Some (b - a) | _ \<Rightarrow> None)"

text \<open>
  \<open>Array.prototype.sort(comparefn)\<close>. The language fixes its result for a consistent
  comparator: the stable sort, where \<open>a\<close> goes before \<open>b\<close> when \<open>comparefn(a, b) < 0\<close>, and a
  \<open>NaN\<close> result counts as \<open>+0\<close>. That is what insertion from the right computes. For a
  comparator that is not consistent (here: when a timestamp does not parse) the order is
  implementation-defined, and the theorems about order below assume parsed timestamps.
\<close>

definition sortCompare :: "('a \<Rightarrow> 'a \<Rightarrow> int option) \<Rightarrow> 'a \<Rightarrow> 'a \<Rightarrow> int" where
  "sortCompare comparefn x y = (case comparefn x y of None \<Rightarrow> 0 | Some v \<Rightarrow> v)"

fun insertSorted :: "('a \<Rightarrow> 'a \<Rightarrow> int option) \<Rightarrow> 'a \<Rightarrow> 'a list \<Rightarrow> 'a list" where
  "insertSorted comparefn x [] = [x]"
| "insertSorted comparefn x (y # ys) =
     (if sortCompare comparefn x y \<le> 0 then x # y # ys
      else y # insertSorted comparefn x ys)"

fun arraySort :: "('a \<Rightarrow> 'a \<Rightarrow> int option) \<Rightarrow> 'a list \<Rightarrow> 'a list" where
  "arraySort comparefn [] = []"
| "arraySort comparefn (x # xs) = insertSorted comparefn x (arraySort comparefn xs)"

text \<open>
  The reducer. \<open>new Date().toISOString()\<close> reads the clock: the reading is the parameter
  \<open>clock\<close>, one per evaluation of the reducer.
\<close>

fun accountReducer ::
  "(string \<Rightarrow> int option) \<Rightarrow> string \<Rightarrow> accountState \<Rightarrow> accountAction \<Rightarrow> accountState" where
  "accountReducer gt clock state (SET_STATE payload) = spreadState state payload"
| "accountReducer gt clock state (SET_LOADING payload) = state\<lparr>loading := payload\<rparr>"
| "accountReducer gt clock state (SET_ERROR payload) = state\<lparr>error := payload\<rparr>"
| "accountReducer gt clock state (UPSERT_BALANCES payload) =
     state\<lparr>balance := payload, lastUpdated := Some clock\<rparr>"
| "accountReducer gt clock state (UPSERT_POSITION payload) =
     (let index = findIndex (\<lambda>p. position_symbol p = position_symbol payload) (positions state)
      in state\<lparr>positions :=
                 (if index \<ge> 0 then (positions state)[nat index := payload]
                  else positions state @ [payload]),
               lastUpdated := Some clock\<rparr>)"
| "accountReducer gt clock state (UPSERT_ORDER payload) =
     state\<lparr>orders :=
             arraySort (\<lambda>a b. compareDesc gt (order_timestamp a) (order_timestamp b))
               (payload # filter (\<lambda>order. order_id order \<noteq> order_id payload) (orders state)),
           lastUpdated := Some clock\<rparr>"
| "accountReducer gt clock state (UPSERT_TRADE payload) =
     state\<lparr>trades :=
             arraySort (\<lambda>a b. compareDesc gt (trade_timestamp a) (trade_timestamp b))
               (payload # filter (\<lambda>trade. trade_id trade \<noteq> trade_id payload) (trades state)),
           lastUpdated := Some clock\<rparr>"
| "accountReducer gt clock state (SET_RISK payload) =
     state\<lparr>risk := Some payload, lastUpdated := Some clock\<rparr>"
| "accountReducer gt clock state (ADD_NOTIFICATION payload) =
     state\<lparr>notifications := take 50 (payload # notifications state),
           lastUpdated := Some clock\<rparr>"
| "accountReducer gt clock state (SET_NOTIFICATIONS payload) =
     state\<lparr>notifications := payload, lastUpdated := Some clock\<rparr>"
| "accountReducer gt clock state (MARK_NOTIFICATION nid rd) =
     state\<lparr>notifications :=
             map (\<lambda>notification.
                    if notification_id notification = nid
                    then notification\<lparr>notification_read := rd\<rparr>
                    else notification)
                 (notifications state),
           lastUpdated := Some clock\<rparr>"
| "accountReducer gt clock state (SET_STRATEGIES payload) =
     state\<lparr>strategies := payload, lastUpdated := Some clock\<rparr>"

text \<open>
  A sequence of dispatches: each action is reduced with the clock reading of its own
  evaluation.
\<close>

fun dispatchAll ::
  "(string \<Rightarrow> int option) \<Rightarrow> accountState \<Rightarrow> (string \<times> accountAction) list \<Rightarrow> accountState" where
  "dispatchAll gt state [] = state"
| "dispatchAll gt state ((clock, action) # rest) =
     dispatchAll gt (accountReducer gt clock state action) rest"

section \<open>Orders and trades as sorted collections\<close>

text \<open>
  A list of parsed timestamps is descending when every one of them is a date and none is
  later than the one before it; strictly descending when each is earlier than the one
  before it.
\<close>

fun descending :: "int option list \<Rightarrow> bool" where
  "descending [] = True"
| "descending [t] = (t \<noteq> None)"
| "descending (t # u # r) =
     ((case (t, u) of (Some a, Some b) \<Rightarrow> b \<le> a | _ \<Rightarrow> False) \<and> descending (u # r))"

fun strictlyDescending :: "int option list \<Rightarrow> bool" where
  "strictlyDescending [] = True"
| "strictlyDescending [t] = (t \<noteq> None)"
| "strictlyDescending (t # u # r) =
     ((case (t, u) of (Some a, Some b) \<Rightarrow> b < a | _ \<Rightarrow> False) \<and> strictlyDescending (u # r))"

text \<open>
  The list computed by the \<open>UPSERT_ORDER\<close> and \<open>UPSERT_TRADE\<close> cases of the reducer, for a
  comparator \<open>c\<close> and an identity \<open>k\<close>.
\<close>

definition upsertById ::
  "('a \<Rightarrow> 'a \<Rightarrow> int option) \<Rightarrow> ('a \<Rightarrow> string) \<Rightarrow> 'a list \<Rightarrow> 'a \<Rightarrow> 'a list" where
  "upsertById c k xs x = arraySort c (x # filter (\<lambda>y. k y \<noteq> k x) xs)"

text \<open>The parsed timestamps of a collection, and its entry under an id.\<close>

definition orderTimes :: "(string \<Rightarrow> int option) \<Rightarrow> order list \<Rightarrow> int option list" where
  "orderTimes gt os = map (\<lambda>p. gt (order_timestamp p)) os"

definition tradeTimes :: "(string \<Rightarrow> int option) \<Rightarrow> trade list \<Rightarrow> int option list" where
  "tradeTimes gt ts = map (\<lambda>p. gt (trade_timestamp p)) ts"

definition orderById :: "string \<Rightarrow> order list \<Rightarrow> order option" where
  "orderById i os = find (\<lambda>p. order_id p = i) os"

definition tradeById :: "string \<Rightarrow> trade list \<Rightarrow> trade option" where
  "tradeById i ts = find (\<lambda>p. trade_id p = i) ts"

text \<open>A sequence of upserts, each with the clock reading of its evaluation.\<close>

definition upsertOrders :: "(string \<times> order) list \<Rightarrow> (string \<times> accountAction) list" where
  "upsertOrders cps = map (\<lambda>(c, p). (c, UPSERT_ORDER p)) cps"

definition upsertTrades :: "(string \<times> trade) list \<Rightarrow> (string \<times> accountAction) list" where
  "upsertTrades cps = map (\<lambda>(c, p). (c, UPSERT_TRADE p)) cps"

section \<open>Positions by symbol\<close>

text \<open>
  The entries of a positions list under a symbol, and the list computed by the
  \<open>UPSERT_POSITION\<close> case of the reducer.
\<close>

definition positionsFor :: "string \<Rightarrow> position list \<Rightarrow> position list" where
  "positionsFor symbol ps = filter (\<lambda>p. position_symbol p = symbol) ps"

definition upsertPosition :: "position list \<Rightarrow> position \<Rightarrow> position list" where
  "upsertPosition ps payload =
     (let index = findIndex (\<lambda>p. position_symbol p = position_symbol payload) ps
      in if index \<ge> 0 then ps[nat index := payload] else ps @ [payload])"

section \<open>The fallback data set (services/mockData.ts)\<close>

text \<open>
  The module reads the clock once, when it is loaded (\<open>const now = new Date()\<close>); \<open>now\<close>
  below is \<open>now.getTime()\<close>, in milliseconds. \<open>Date.prototype.toISOString\<close> is the
  parameter \<open>toISO\<close>. Characters outside ASCII are written as their UTF-8 bytes.
\<close>

definition HOURS :: int where
  "HOURS = 60 * 60 * 1000"

definition DAYS :: int where
  "DAYS = 24 * HOURS"

definition hoursAgo :: "(int \<Rightarrow> string) \<Rightarrow> int \<Rightarrow> int \<Rightarrow> string" where
  "hoursAgo toISO now hours = toISO (now - hours * HOURS)"

definition daysAgo :: "(int \<Rightarrow> string) \<Rightarrow> int \<Rightarrow> int \<Rightarrow> string" where
  "daysAgo toISO now days = toISO (now - days * DAYS)"

definition mockBalances :: "balance list" where
  "mockBalances =
    [\<lparr>balance_asset = ''USDT'', balance_available = 18000, balance_hold = 2500,
       balance_usdValue = 20500, balance_allocation = 0.26\<rparr>,
     \<lparr>balance_asset = ''BTC'', balance_available = 0.85, balance_hold = 0.1,
       balance_usdValue = 29000, balance_allocation = 0.29\<rparr>,
     \<lparr>balance_asset = ''ETH'', balance_available = 12.5, balance_hold = 1.4,
       balance_usdValue = 25000, balance_allocation = 0.22\<rparr>,
     \<lparr>balance_asset = ''SOL'', balance_available = 320, balance_hold = 40,
       balance_usdValue = 12000, balance_allocation = 0.13\<rparr>,
     \<lparr>balance_asset = ''USDC'', balance_available = 8000, balance_hold = 0,
       balance_usdValue = 8000, balance_allocation = 0.1\<rparr>]"

definition mockPositions :: "(int \<Rightarrow> string) \<Rightarrow> int \<Rightarrow> position list" where
  "mockPositions toISO now =
    [\<lparr>position_symbol = ''BTC/USDT'', position_direction = LONG, position_size = 0.75,
       position_entryPrice = 36800, position_markPrice = 38250,
       position_pnl = \<lparr>pnl_value = 1087.5, pnl_percentage = 0.0427\<rparr>,
       position_margin = 9200, position_updatedAt = hoursAgo toISO now 2,
       position_strategy = Some ''AI Momentum''\<rparr>,
     \<lparr>position_symbol = ''ETH/USDT'', position_direction = SHORT, position_size = 8.5,
       position_entryPrice = 2680, position_markPrice = 2595,
       position_pnl = \<lparr>pnl_value = 722.5, pnl_percentage = 0.0338\<rparr>,
       position_margin = 5200, position_updatedAt = hoursAgo toISO now 4,
       position_strategy = Some ''Mean Reversion''\<rparr>,
     \<lparr>position_symbol = ''SOL/USDT'', position_direction = LONG, position_size = 250,
       position_entryPrice = 58.4, position_markPrice = 62.1,
       position_pnl = \<lparr>pnl_value = 925, pnl_percentage = 0.0635\<rparr>,
       position_margin = 3600, position_updatedAt = hoursAgo toISO now 1,
       position_strategy = Some ''AI Momentum''\<rparr>]"

definition baseOrders :: "(int \<Rightarrow> string) \<Rightarrow> int \<Rightarrow> order list" where
  "baseOrders toISO now =
    [\<lparr>order_id = ''ORD-20240301-001'', order_timestamp = hoursAgo toISO now 2,
       order_symbol = ''BTC/USDT'', order_type = LIMIT, order_side = BUY,
       order_price = 38000, order_quantity = 0.6, order_filledQuantity = 0.6,
       order_status = FILLED\<rparr>,
     \<lparr>order_id = ''ORD-20240301-002'', order_timestamp = hoursAgo toISO now 5,
       order_symbol = ''ETH/USDT'', order_type = MARKET, order_side = SELL,
       order_price = 2620, order_quantity = 5, order_filledQuantity = 5,
       order_status = FILLED\<rparr>,
     \<lparr>order_id = ''ORD-20240229-003'', order_timestamp = hoursAgo toISO now 18,
       order_symbol = ''SOL/USDT'', order_type = LIMIT, order_side = BUY,
       order_price = 60.5, order_quantity = 200, order_filledQuantity = 150,
       order_status = PARTIALLY_FILLED\<rparr>,
     \<lparr>order_id = ''ORD-20240228-004'', order_timestamp = daysAgo toISO now 1,
       order_symbol = ''BTC/USDT'', order_type = STOP, order_side = SELL,
       order_price = 35200, order_quantity = 0.4, order_filledQuantity = 0,
       order_status = CANCELED\<rparr>,
     \<lparr>order_id = ''ORD-20240228-005'', order_timestamp = daysAgo toISO now 2,
       order_symbol = ''ETH/USDT'', order_type = LIMIT, order_side = BUY,
       order_price = 2550, order_quantity = 4, order_filledQuantity = 4,
       order_status = FILLED\<rparr>,
     \<lparr>order_id = ''ORD-20240227-006'', order_timestamp = daysAgo toISO now 3,
       order_symbol = ''SOL/USDT'', order_type = MARKET, order_side = SELL,
       order_price = 59.2, order_quantity = 100, order_filledQuantity = 100,
       order_status = FILLED\<rparr>,
     \<lparr>order_id = ''ORD-20240225-007'', order_timestamp = daysAgo toISO now 5,
       order_symbol = ''BTC/USDT'', order_type = LIMIT, order_side = SELL,
       order_price = 39400, order_quantity = 0.3, order_filledQuantity = 0,
       order_status = OPEN\<rparr>,
     \<lparr>order_id = ''ORD-20240222-008'', order_timestamp = daysAgo toISO now 8,
       order_symbol = ''SOL/USDT'', order_type = LIMIT, order_side = BUY,
       order_price = 56.8, order_quantity = 180, order_filledQuantity = 180,
       order_status = FILLED\<rparr>,
     \<lparr>order_id = ''ORD-20240218-009'', order_timestamp = daysAgo toISO now 12,
       order_symbol = ''BTC/USDT'', order_type = MARKET, order_side = BUY,
       order_price = 37250, order_quantity = 0.5, order_filledQuantity = 0.5,
       order_status = FILLED\<rparr>,
     \<lparr>order_id = ''ORD-20240210-010'', order_timestamp = daysAgo toISO now 20,
       order_symbol = ''ETH/USDT'', order_type = LIMIT, order_side = SELL,
       order_price = 2785, order_quantity = 3, order_filledQuantity = 0,
       order_status = CANCELED\<rparr>,
     \<lparr>order_id = ''ORD-20240121-011'', order_timestamp = daysAgo toISO now 39,
       order_symbol = ''SOL/USDT'', order_type = STOP_LIMIT, order_side = SELL,
       order_price = 54.2, order_quantity = 200, order_filledQuantity = 200,
       order_status = FILLED\<rparr>,
     \<lparr>order_id = ''ORD-20231228-012'', order_timestamp = daysAgo toISO now 82,
       order_symbol = ''BTC/USDT'', order_type = LIMIT, order_side = BUY,
       order_price = 34800, order_quantity = 0.8, order_filledQuantity = 0.8,
       order_status = FILLED\<rparr>]"

definition baseTrades :: "(int \<Rightarrow> string) \<Rightarrow> int \<Rightarrow> trade list" where
  "baseTrades toISO now =
    [\<lparr>trade_id = ''TRD-6001'', trade_orderId = ''ORD-20240301-001'',
       trade_timestamp = hoursAgo toISO now 2, trade_symbol = ''BTC/USDT'', trade_side = BUY,
       trade_price = 37980, trade_quantity = 0.6, trade_fee = 5.2,
       trade_strategy = Some ''AI Momentum''\<rparr>,
     \<lparr>trade_id = ''TRD-6002'', trade_orderId = ''ORD-20240301-002'',
       trade_timestamp = hoursAgo toISO now 5, trade_symbol = ''ETH/USDT'', trade_side = SELL,
       trade_price = 2624, trade_quantity = 5, trade_fee = 3.8,
       trade_strategy = Some ''Mean Reversion''\<rparr>,
     \<lparr>trade_id = ''TRD-6003'', trade_orderId = ''ORD-20240229-003'',
       trade_timestamp = hoursAgo toISO now 18, trade_symbol = ''SOL/USDT'', trade_side = BUY,
       trade_price = 60.2, trade_quantity = 150, trade_fee = 4.1,
       trade_strategy = Some ''AI Momentum''\<rparr>,
     \<lparr>trade_id = ''TRD-6004'', trade_orderId = ''ORD-20240228-005'',
       trade_timestamp = daysAgo toISO now 2, trade_symbol = ''ETH/USDT'', trade_side = BUY,
       trade_price = 2548, trade_quantity = 4, trade_fee = 2.7,
       trade_strategy = Some ''AI Momentum''\<rparr>,
     \<lparr>trade_id = ''TRD-6005'', trade_orderId = ''ORD-20240227-006'',
       trade_timestamp = daysAgo toISO now 3, trade_symbol = ''SOL/USDT'', trade_side = SELL,
       trade_price = 59.3, trade_quantity = 100, trade_fee = 2.9,
       trade_strategy = Some ''Scalper''\<rparr>,
     \<lparr>trade_id = ''TRD-6006'', trade_orderId = ''ORD-20240222-008'',
       trade_timestamp = daysAgo toISO now 8, trade_symbol = ''SOL/USDT'', trade_side = BUY,
       trade_price = 56.8, trade_quantity = 180, trade_fee = 4.8,
       trade_strategy = Some ''AI Momentum''\<rparr>,
     \<lparr>trade_id = ''TRD-6007'', trade_orderId = ''ORD-20240218-009'',
       trade_timestamp = daysAgo toISO now 12, trade_symbol = ''BTC/USDT'', trade_side = BUY,
       trade_price = 37280, trade_quantity = 0.5, trade_fee = 4.2,
       trade_strategy = Some ''Mean Reversion''\<rparr>,
     \<lparr>trade_id = ''TRD-6008'', trade_orderId = ''ORD-20240210-010'',
       trade_timestamp = daysAgo toISO now 20, trade_symbol = ''ETH/USDT'', trade_side = SELL,
       trade_price = 2780, trade_quantity = 3, trade_fee = 2.5,
       trade_strategy = Some ''Scalper''\<rparr>,
     \<lparr>trade_id = ''TRD-6009'', trade_orderId = ''ORD-20240121-011'',
       trade_timestamp = daysAgo toISO now 39, trade_symbol = ''SOL/USDT'', trade_side = SELL,
       trade_price = 54.3, trade_quantity = 200, trade_fee = 5.4,
       trade_strategy = Some ''AI Momentum''\<rparr>,
     \<lparr>trade_id = ''TRD-6010'', trade_orderId = ''ORD-20231228-012'',
       trade_timestamp = daysAgo toISO now 82, trade_symbol = ''BTC/USDT'', trade_side = BUY,
       trade_price = 34820, trade_quantity = 0.8, trade_fee = 5.6,
       trade_strategy = Some ''AI Momentum''\<rparr>]"

fun performanceByRange :: "performanceRange \<Rightarrow> performanceMetrics" where
  "performanceByRange PR_TODAY =
    \<lparr>totalReturn = 0.017, annualizedReturn = 0.42, maxDrawdown = 0.04, sharpeRatio = 2.8,
      winRate = 0.68, averageWin = 420, averageLoss = - 260, totalTrades = 6,
      winningTrades = 4, losingTrades = 2, profitLossToday = 540,
      profitLossTotal = 39680\<rparr>"
| "performanceByRange PR_WEEK =
    \<lparr>totalReturn = 0.036, annualizedReturn = 0.38, maxDrawdown = 0.07,
      sharpeRatio = 2.45, winRate = 0.66, averageWin = 480, averageLoss = - 310,
      totalTrades = 24, winningTrades = 16, losingTrades = 8, profitLossToday = 540,
      profitLossTotal = 39680\<rparr>"
| "performanceByRange PR_MONTH =
    \<lparr>totalReturn = 0.078, annualizedReturn = 0.41, maxDrawdown = 0.11,
      sharpeRatio = 2.32, winRate = 0.63, averageWin = 510, averageLoss = - 340,
      totalTrades = 92, winningTrades = 58, losingTrades = 34, profitLossToday = 540,
      profitLossTotal = 39680\<rparr>"
| "performanceByRange PR_YEAR =
    \<lparr>totalReturn = 0.312, annualizedReturn = 0.43, maxDrawdown = 0.18,
      sharpeRatio = 2.58, winRate = 0.64, averageWin = 495, averageLoss = - 330,
      totalTrades = 860, winningTrades = 552, losingTrades = 308, profitLossToday = 540,
      profitLossTotal = 39680\<rparr>"
| "performanceByRange PR_ALL =
    \<lparr>totalReturn = 0.412, annualizedReturn = 0.37, maxDrawdown = 0.21,
      sharpeRatio = 2.34, winRate = 0.61, averageWin = 470, averageLoss = - 320,
      totalTrades = 1350, winningTrades = 824, losingTrades = 526, profitLossToday = 540,
      profitLossTotal = 39680\<rparr>"

text \<open>
  \<open>hourlyHeatmap\<close> is computed with \<open>Math.sin\<close>, \<open>Math.round\<close> and \<open>toFixed\<close> in double
  precision; its 168 cells are the parameter \<open>heatmap\<close>.
\<close>

definition mockTradeStatistics :: "heatmapCell list \<Rightarrow> tradeStatistics" where
  "mockTradeStatistics heatmap = \<lparr>
    byPair =
      [\<lparr>ps_symbol = ''BTC/USDT'', ps_trades = 420, ps_pnl = 16800, ps_winRate = 0.64\<rparr>,
       \<lparr>ps_symbol = ''ETH/USDT'', ps_trades = 360, ps_pnl = 13200, ps_winRate = 0.61\<rparr>,
       \<lparr>ps_symbol = ''SOL/USDT'', ps_trades = 210, ps_pnl = 9800, ps_winRate = 0.66\<rparr>,
       \<lparr>ps_symbol = ''BNB/USDT'', ps_trades = 140, ps_pnl = 6200, ps_winRate = 0.58\<rparr>],
    profitDistribution =
      [\<lparr>pb_range = ''< -5%'', pb_count = 42\<rparr>,
       \<lparr>pb_range = ''-5% ~ 0%'', pb_count = 148\<rparr>,
       \<lparr>pb_range = ''0% ~ 5%'', pb_count = 286\<rparr>,
       \<lparr>pb_range = ''5% ~ 10%'', pb_count = 178\<rparr>,
       \<lparr>pb_range = ''> 10%'', pb_count = 64\<rparr>],
    holdingDurations =
      [\<lparr>hb_bucket = ''< 1h'', hb_count = 168, hb_avgPnl = 0.014\<rparr>,
       \<lparr>hb_bucket = ''1h - 4h'', hb_count = 214, hb_avgPnl = 0.022\<rparr>,
       \<lparr>hb_bucket = ''4h - 24h'', hb_count = 180, hb_avgPnl = 0.028\<rparr>,
       \<lparr>hb_bucket = ''> 24h'', hb_count = 128, hb_avgPnl = 0.034\<rparr>],
    hourlyHeatmap = heatmap,
    strategyComparison =
      [\<lparr>sp_strategy = ''AI Momentum'', sp_pnl = 19800, sp_winRate = 0.66, sp_sharpe = 2.8,
         sp_trades = 520\<rparr>,
       \<lparr>sp_strategy = ''Mean Reversion'', sp_pnl = 12800, sp_winRate = 0.58,
         sp_sharpe = 2.2, sp_trades = 360\<rparr>,
       \<lparr>sp_strategy = ''Scalper'', sp_pnl = 6200, sp_winRate = 0.63, sp_sharpe = 1.9,
         sp_trades = 240\<rparr>,
       \<lparr>sp_strategy = ''Grid Bot'', sp_pnl = 3400, sp_winRate = 0.55, sp_sharpe = 1.5,
         sp_trades = 180\<rparr>],
    stat_totals = \<lparr>totals_volume = 18600000, totals_fees = 11240\<rparr>\<rparr>"

definition mockStrategies :: "(int \<Rightarrow> string) \<Rightarrow> int \<Rightarrow> strategy list" where
  "mockStrategies toISO now =
    [\<lparr>strategy_id = ''strat-001'', strategy_name = ''AI Momentum'',
       strategy_status = running, strategy_pnl = 19800, strategy_winRate = 0.66,
       strategy_trades = 520,
       strategy_description = Some ''Deep learning momentum strategy focusing on BTC and SOL.'',
       strategy_lastUpdated = hoursAgo toISO now 1\<rparr>,
     \<lparr>strategy_id = ''strat-002'', strategy_name = ''Mean Reversion'',
       strategy_status = paused, strategy_pnl = 12800, strategy_winRate = 0.58,
       strategy_trades = 360,
       strategy_description = Some ''Short-term mean reversion on ETH perpetuals.'',
       strategy_lastUpdated = hoursAgo toISO now 7\<rparr>,
     \<lparr>strategy_id = ''strat-003'', strategy_name = ''Scalper'', strategy_status = stopped,
       strategy_pnl = 6200, strategy_winRate = 0.63, strategy_trades = 240,
       strategy_description = Some ''High frequency scalping strategy on major pairs.'',
       strategy_lastUpdated = daysAgo toISO now 2\<rparr>]"

definition mockRiskMetrics :: "(int \<Rightarrow> string) \<Rightarrow> int \<Rightarrow> riskMetrics" where
  "mockRiskMetrics toISO now =
    \<lparr>currentExposure = 0.46, maxExposure = 0.75, leverage = 4.2, maxLeverage = 8,
      marginUtilization = 0.38, var = 0.062,
      riskEvents = [\<lparr>riskEvent_id = ''risk-evt-001'', riskEvent_timestamp = hoursAgo toISO now 3,
         riskEvent_rule = ''BTC drawdown > 3%'', riskEvent_severity = risk_warning,
         riskEvent_details = ''BTC price dipped 3.5% within 30 minutes. Positions hedged automatically.''\<rparr>,
       \<lparr>riskEvent_id = ''risk-evt-002'', riskEvent_timestamp = daysAgo toISO now 1,
         riskEvent_rule = ''Leverage limit breach'', riskEvent_severity = risk_info,
         riskEvent_details = ''SOL leverage reached 5.5x during breakout and was reduced to 4x.''\<rparr>],
      alerts = [\<lparr>alert_id = ''alert-001'', alert_type = ''price'',
         alert_description = ''BTC drawdown exceeds 5%'', alert_threshold = Some 0.05,
         alert_enabled = True\<rparr>,
       \<lparr>alert_id = ''alert-002'', alert_type = ''margin'',
         alert_description = ''Margin utilization exceeds 60%'', alert_threshold = Some 0.6,
         alert_enabled = True\<rparr>,
       \<lparr>alert_id = ''alert-003'', alert_type = ''strategy'',
         alert_description = ''Strategy drawdown exceeds 12%'', alert_threshold = Some 0.12,
         alert_enabled = False\<rparr>]\<rparr>"

definition mockNotifications :: "(int \<Rightarrow> string) \<Rightarrow> int \<Rightarrow> notification list" where
  "mockNotifications toISO now =
    [\<lparr>notification_id = ''notif-001'', notification_category = cat_order,
       notification_title = [CHR 0xE8, CHR 0xAE, CHR 0xA2, CHR 0xE5, CHR 0x8D, CHR 0x95,
          CHR 0xE5, CHR 0xB7, CHR 0xB2, CHR 0xE6, CHR 0x88, CHR 0x90, CHR 0xE4, CHR 0xBA,
          CHR 0xA4],
       notification_message = (''BTC/USDT '' @ [CHR 0xE9, CHR 0x99, CHR 0x90, CHR 0xE4, CHR 0xBB,
          CHR 0xB7, CHR 0xE4, CHR 0xB9, CHR 0xB0, CHR 0xE5, CHR 0x8D,
          CHR 0x95] @ '' 0.6 BTC @ 38,000 '' @ [CHR 0xE5, CHR 0xB7, CHR 0xB2, CHR 0xE5, CHR 0xAE,
          CHR 0x8C, CHR 0xE5, CHR 0x85, CHR 0xA8, CHR 0xE6, CHR 0x88, CHR 0x90, CHR 0xE4,
          CHR 0xBA, CHR 0xA4, CHR 0xE3, CHR 0x80, CHR 0x82]),
       notification_timestamp = hoursAgo toISO now 2, notification_read = False,
       notification_severity = success\<rparr>,
     \<lparr>notification_id = ''notif-002'', notification_category = cat_price,
       notification_title = [CHR 0xE4, CHR 0xBB, CHR 0xB7, CHR 0xE6, CHR 0xA0, CHR 0xBC,
          CHR 0xE5, CHR 0x91, CHR 0x8A, CHR 0xE8, CHR 0xAD, CHR 0xA6],
       notification_message = (''ETH/USDT '' @ [CHR 0xE4, CHR 0xBB, CHR 0xB7, CHR 0xE6, CHR 0xA0,
          CHR 0xBC, CHR 0xE5, CHR 0x9C, CHR 0xA8] @ '' 30 '' @ [CHR 0xE5, CHR 0x88, CHR 0x86,
          CHR 0xE9, CHR 0x92, CHR 0x9F, CHR 0xE5, CHR 0x86, CHR 0x85, CHR 0xE4, CHR 0xB8,
          CHR 0x8A, CHR 0xE6, CHR 0xB6, CHR 0xA8] @ '' 2.5%'' @ [CHR 0xE3, CHR 0x80, CHR 0x82]),
       notification_timestamp = hoursAgo toISO now 5, notification_read = False,
       notification_severity = warning\<rparr>,
     \<lparr>notification_id = ''notif-003'', notification_category = cat_strategy,
       notification_title = [CHR 0xE7, CHR 0xAD, CHR 0x96, CHR 0xE7, CHR 0x95, CHR 0xA5,
          CHR 0xE7, CHR 0x8A, CHR 0xB6, CHR 0xE6, CHR 0x80, CHR 0x81, CHR 0xE6, CHR 0x9B,
          CHR 0xB4, CHR 0xE6, CHR 0x96, CHR 0xB0],
       notification_message = (''AI Momentum '' @ [CHR 0xE7, CHR 0xAD, CHR 0x96, CHR 0xE7,
          CHR 0x95, CHR 0xA5, CHR 0xE4, CHR 0xBB, CHR 0x8A, CHR 0xE6, CHR 0x97, CHR 0xA5,
          CHR 0xE6, CHR 0x94, CHR 0xB6, CHR 0xE7, CHR 0x9B, CHR 0x8A, CHR 0xE7, CHR 0x8E,
          CHR 0x87] @ '' +1.7%'' @ [CHR 0xE3, CHR 0x80, CHR 0x82]),
       notification_timestamp = hoursAgo toISO now 8, notification_read = True,
       notification_severity = info\<rparr>,
     \<lparr>notification_id = ''notif-004'', notification_category = cat_system,
       notification_title = [CHR 0xE7, CHR 0xB3, CHR 0xBB, CHR 0xE7, CHR 0xBB, CHR 0x9F,
          CHR 0xE5, CHR 0x85, CHR 0xAC, CHR 0xE5, CHR 0x91, CHR 0x8A],
       notification_message = ([CHR 0xE7, CHR 0xB3, CHR 0xBB, CHR 0xE7, CHR 0xBB, CHR 0x9F,
          CHR 0xE5, CHR 0xB0, CHR 0x86, CHR 0xE5, CHR 0x9C, CHR 0xA8, CHR 0xE5, CHR 0x91,
          CHR 0xA8, CHR 0xE6, CHR 0x9C, CHR 0xAB, CHR 0xE8, CHR 0xBF, CHR 0x9B, CHR 0xE8,
          CHR 0xA1, CHR 0x8C, CHR 0xE7, CHR 0xBB, CHR 0xB4, CHR 0xE6, CHR 0x8A, CHR 0xA4,
          CHR 0xEF, CHR 0xBC, CHR 0x8C, CHR 0xE9, CHR 0xA2, CHR 0x84, CHR 0xE8, CHR 0xAE,
          CHR 0xA1, CHR 0xE5, CHR 0x81, CHR 0x9C, CHR 0xE6, CHR 0x9C,
          CHR 0xBA] @ '' 1 '' @ [CHR 0xE5, CHR 0xB0, CHR 0x8F, CHR 0xE6, CHR 0x97, CHR 0xB6,
          CHR 0xE3, CHR 0x80, CHR 0x82]),
       notification_timestamp = daysAgo toISO now 1, notification_read = True,
       notification_severity = info\<rparr>]"

text \<open>
  The truthiness test \<open>if (filters.start)\<close> and \<open>filters?.symbol && ...\<close> on an optional
  string: \<open>undefined\<close> and the empty string are both falsy.
\<close>

definition truthy :: "string option \<Rightarrow> bool" where
  "truthy s = (case s of None \<Rightarrow> False | Some v \<Rightarrow> v \<noteq> [])"

text \<open>\<open>a < b\<close> and \<open>a > b\<close> on numbers: false as soon as one side is \<open>NaN\<close>.\<close>

definition numLess :: "int option \<Rightarrow> int option \<Rightarrow> bool" where
  "numLess a b = (case (a, b) of (Some x, Some y) \<Rightarrow> x < y | _ \<Rightarrow> False)"

definition numGreater :: "int option \<Rightarrow> int option \<Rightarrow> bool" where
  "numGreater a b = (case (a, b) of (Some x, Some y) \<Rightarrow> x > y | _ \<Rightarrow> False)"

text \<open>
  \<open>withinRange(timestamp, filters?: { start?, end? })\<close>: the second argument is the pair of
  the \<open>start\<close> and \<open>end\<close> fields of the caller's filters, \<open>None\<close> when the caller has no
  filters.
\<close>

definition withinRange ::
  "(string \<Rightarrow> int option) \<Rightarrow> string \<Rightarrow> (string option \<times> string option) option \<Rightarrow> bool" where
  "withinRange gt timestamp filters =
     (case filters of
        None \<Rightarrow> True
      | Some (start, finish) \<Rightarrow>
          (let v = gt timestamp in
           if truthy start \<and> numLess v (case start of Some s \<Rightarrow> gt s | None \<Rightarrow> None) then False
           else if truthy finish \<and> numGreater v (case finish of Some e \<Rightarrow> gt e | None \<Rightarrow> None)
           then False
           else True))"

text \<open>\<open>filters?.field\<close>: \<open>undefined\<close> when there are no filters.\<close>

definition optField :: "('f \<Rightarrow> 'a option) \<Rightarrow> 'f option \<Rightarrow> 'a option" where
  "optField field filters = (case filters of None \<Rightarrow> None | Some f \<Rightarrow> field f)"

definition getMockOrders ::
  "(string \<Rightarrow> int option) \<Rightarrow> (int \<Rightarrow> string) \<Rightarrow> int \<Rightarrow> orderFilters option \<Rightarrow> order list" where
  "getMockOrders gt toISO now filters =
     filter (\<lambda>order.
        if optField of_status filters \<noteq> None \<and> optField of_status filters \<noteq> Some Status_ALL
           \<and> Some (Status (order_status order)) \<noteq> optField of_status filters
        then False
        else if truthy (optField of_symbol filters) \<and> optField of_symbol filters \<noteq> Some ''ALL''
           \<and> Some (order_symbol order) \<noteq> optField of_symbol filters
        then False
        else if optField of_side filters \<noteq> None \<and> optField of_side filters \<noteq> Some Side_ALL
           \<and> Some (Side (order_side order)) \<noteq> optField of_side filters
        then False
        else if \<not> withinRange gt (order_timestamp order)
                   (map_option (\<lambda>f. (of_start f, of_end f)) filters)
        then False
        else True)
      (baseOrders toISO now)"

definition getMockTrades ::
  "(string \<Rightarrow> int option) \<Rightarrow> (int \<Rightarrow> string) \<Rightarrow> int \<Rightarrow> tradeFilters option \<Rightarrow> trade list" where
  "getMockTrades gt toISO now filters =
     filter (\<lambda>trade.
        if truthy (optField tf_symbol filters) \<and> optField tf_symbol filters \<noteq> Some ''ALL''
           \<and> Some (trade_symbol trade) \<noteq> optField tf_symbol filters
        then False
        else if optField tf_side filters \<noteq> None \<and> optField tf_side filters \<noteq> Some Side_ALL
           \<and> Some (Side (trade_side trade)) \<noteq> optField tf_side filters
        then False
        else if \<not> withinRange gt (trade_timestamp trade)
                   (map_option (\<lambda>f. (tf_start f, tf_end f)) filters)
        then False
        else True)
      (baseTrades toISO now)"

text \<open>
  \<open>performanceByRange[range] ?? performanceByRange.ALL\<close>: every \<open>PerformanceRange\<close> is a key
  of the table, so the default is never taken.
\<close>

definition getMockPerformance :: "performanceRange \<Rightarrow> performanceMetrics" where
  "getMockPerformance rng = performanceByRange rng"

definition getMockTradeStatistics ::
  "heatmapCell list \<Rightarrow> tradeFilters option \<Rightarrow> tradeStatistics" where
  "getMockTradeStatistics heatmap filters = mockTradeStatistics heatmap"



section \<open>The data-access layer (services/account.ts)\<close>

text \<open>
  What the functions of this layer and of the provider read from the runtime and do not
  compute themselves: the two \<open>Date\<close> functions, the load time of \<open>mockData.ts\<close>, and the
  two fallback values that \<open>mockData.ts\<close> computes in double precision with \<open>Math.sin\<close>
  and \<open>Math.cos\<close> (the heatmap cells and \<open>getMockAssetHistory\<close>).
\<close>

record runtime =
  getTime :: "string \<Rightarrow> int option"
  toISOString :: "int \<Rightarrow> string"
  loadTime :: int
  heatmapCells :: "heatmapCell list"
  getMockAssetHistory :: "timeRange \<Rightarrow> assetHistoryPoint list"

text \<open>
  The outcome of each HTTP call: \<open>Inr\<close> the response data, \<open>Inl\<close> the message of the error
  the call throws (a network error, a status that is not a success). The client returns
  the body of a successful response as it is, without checking it against the declared
  type: a body of another shape does not throw, and has no place in this typed model.
\<close>

record remote =
  r_balance :: "string + balance list"
  r_positions :: "string + position list"
  r_orders :: "orderFilters option \<Rightarrow> string + order list"
  r_trades :: "tradeFilters option \<Rightarrow> string + trade list"
  r_performance :: "performanceRange \<Rightarrow> string + performanceMetrics"
  r_assetHistory :: "timeRange \<Rightarrow> string + assetHistoryPoint list"
  r_tradeStats :: "tradeFilters option \<Rightarrow> string + tradeStatistics"
  r_strategies :: "string + strategy list"
  r_strategyStatus :: "string \<Rightarrow> strategyStatus \<Rightarrow> string + strategy list"
  r_risk :: "string + riskMetrics"
  r_notifications :: "string + notification list"
  r_acknowledge :: "string \<Rightarrow> string + unit"

text \<open>
  The two module variables. \<open>JSON.parse(JSON.stringify(x))\<close> of a \<open>RiskMetrics\<close> is a copy
  that is structurally equal to \<open>x\<close>, so it is \<open>x\<close> here. They start as the mock strategies
  and the mock risk metrics; \<open>strategyCache\<close> is written by a successful \<open>getStrategies\<close>
  and by \<open>updateStrategyStatus\<close> (by its request when it succeeds, by its fallback when it
  fails), \<open>riskCache\<close> by a successful \<open>getRiskMetrics\<close> and by \<open>setRiskCache\<close>.
\<close>

record caches =
  strategyCache :: "strategy list"
  riskCache :: riskMetrics

definition initialCaches :: "(int \<Rightarrow> string) \<Rightarrow> int \<Rightarrow> caches" where
  "initialCaches toISO now =
     \<lparr> strategyCache = map (\<lambda>strategy. strategy) (mockStrategies toISO now),
       riskCache = mockRiskMetrics toISO now \<rparr>"

text \<open>
  \<open>safeRequest(request, fallback)\<close>: the request runs against the module variables and
  either returns (with the variables it has written) or throws; the fallback runs only
  in the second case, on the variables as they were.
\<close>

definition safeRequest ::
  "(caches \<Rightarrow> string + ('a \<times> caches)) \<Rightarrow> (caches \<Rightarrow> 'a \<times> caches) \<Rightarrow> caches \<Rightarrow> 'a \<times> caches" where
  "safeRequest request fallback c =
     (case request c of Inr result \<Rightarrow> result | Inl err \<Rightarrow> fallback c)"

text \<open>A request that only returns \<open>response.data\<close>, and a fallback that only returns a value.\<close>

definition responseData :: "string + 'a \<Rightarrow> caches \<Rightarrow> string + ('a \<times> caches)" where
  "responseData response c = (case response of Inl err \<Rightarrow> Inl err | Inr d \<Rightarrow> Inr (d, c))"

definition always :: "'a \<Rightarrow> caches \<Rightarrow> 'a \<times> caches" where
  "always v c = (v, c)"

definition getAccountBalance :: "remote \<Rightarrow> caches \<Rightarrow> balance list \<times> caches" where
  "getAccountBalance r = safeRequest (responseData (r_balance r)) (always mockBalances)"

definition getPositions :: "runtime \<Rightarrow> remote \<Rightarrow> caches \<Rightarrow> position list \<times> caches" where
  "getPositions rt r =
     safeRequest (responseData (r_positions r))
       (always (mockPositions (toISOString rt) (loadTime rt)))"

definition getOrderHistory ::
  "runtime \<Rightarrow> remote \<Rightarrow> orderFilters option \<Rightarrow> caches \<Rightarrow> order list \<times> caches" where
  "getOrderHistory rt r filters =
     safeRequest (responseData (r_orders r filters))
       (always (getMockOrders (getTime rt) (toISOString rt) (loadTime rt) filters))"

definition getTradeHistory ::
  "runtime \<Rightarrow> remote \<Rightarrow> tradeFilters option \<Rightarrow> caches \<Rightarrow> trade list \<times> caches" where
  "getTradeHistory rt r filters =
     safeRequest (responseData (r_trades r filters))
       (always (getMockTrades (getTime rt) (toISOString rt) (loadTime rt) filters))"

definition getPerformanceMetrics ::
  "remote \<Rightarrow> performanceRange \<Rightarrow> caches \<Rightarrow> performanceMetrics \<times> caches" where
  "getPerformanceMetrics r rng =
     safeRequest (responseData (r_performance r rng)) (always (getMockPerformance rng))"

definition getAssetHistory ::
  "runtime \<Rightarrow> remote \<Rightarrow> timeRange \<Rightarrow> caches \<Rightarrow> assetHistoryPoint list \<times> caches" where
  "getAssetHistory rt r rng =
     safeRequest (responseData (r_assetHistory r rng)) (always (getMockAssetHistory rt rng))"

definition getTradeStatistics ::
  "runtime \<Rightarrow> remote \<Rightarrow> tradeFilters option \<Rightarrow> caches \<Rightarrow> tradeStatistics \<times> caches" where
  "getTradeStatistics rt r filters =
     safeRequest (responseData (r_tradeStats r filters))
       (always (getMockTradeStatistics (heatmapCells rt) filters))"

definition getStrategies :: "remote \<Rightarrow> caches \<Rightarrow> strategy list \<times> caches" where
  "getStrategies r =
     safeRequest
       (\<lambda>c. case r_strategies r of
               Inl err \<Rightarrow> Inl err
             | Inr d \<Rightarrow> Inr (d, c\<lparr>strategyCache := d\<rparr>))
       (\<lambda>c. (strategyCache c, c))"

text \<open>The fallback of \<open>updateStrategyStatus\<close> reads the clock for \<open>lastUpdated\<close>.\<close>

definition updateStrategyStatus ::
  "remote \<Rightarrow> string \<Rightarrow> string \<Rightarrow> strategyStatus \<Rightarrow> caches \<Rightarrow> strategy list \<times> caches" where
  "updateStrategyStatus r clock strategyId status =
     safeRequest
       (\<lambda>c. case r_strategyStatus r strategyId status of
               Inl err \<Rightarrow> Inl err
             | Inr d \<Rightarrow> Inr (d, c\<lparr>strategyCache := d\<rparr>))
       (\<lambda>c. let updated =
                 map (\<lambda>strategy.
                        if strategy_id strategy = strategyId
                        then strategy\<lparr>strategy_status := status, strategy_lastUpdated := clock\<rparr>
                        else strategy)
                     (strategyCache c)
             in (updated, c\<lparr>strategyCache := updated\<rparr>))"

definition getRiskMetrics :: "remote \<Rightarrow> caches \<Rightarrow> riskMetrics \<times> caches" where
  "getRiskMetrics r =
     safeRequest
       (\<lambda>c. case r_risk r of
               Inl err \<Rightarrow> Inl err
             | Inr d \<Rightarrow> Inr (d, c\<lparr>riskCache := d\<rparr>))
       (\<lambda>c. (riskCache c, c))"

definition setRiskCache :: "riskMetrics \<Rightarrow> caches \<Rightarrow> caches" where
  "setRiskCache nextRisk c = c\<lparr>riskCache := nextRisk\<rparr>"

definition getNotifications :: "runtime \<Rightarrow> remote \<Rightarrow> caches \<Rightarrow> notification list \<times> caches" where
  "getNotifications rt r =
     safeRequest (responseData (r_notifications r))
       (always (mockNotifications (toISOString rt) (loadTime rt)))"

definition acknowledgeNotification :: "remote \<Rightarrow> string \<Rightarrow> caches \<Rightarrow> unit \<times> caches" where
  "acknowledgeNotification r notificationId =
     safeRequest (responseData (r_acknowledge r notificationId)) (always ())"

text \<open>
  \<open>getInitialAccountState\<close>: \<open>Promise.all\<close> over the ten requests, here in the order of the
  array. The order is immaterial: only \<open>getStrategies\<close> and \<open>getRiskMetrics\<close> write a module
  variable, each its own. The result is the object with the ten slices, as the part of a
  \<open>Partial<AccountState>\<close> it is; \<open>Inl\<close> would be a rejection of the promise.
\<close>

definition getInitialAccountState ::
  "runtime \<Rightarrow> remote \<Rightarrow> caches \<Rightarrow> string + (statePatch \<times> caches)" where
  "getInitialAccountState rt r c0 =
     (let (balance', c1) = getAccountBalance r c0;
          (positions', c2) = getPositions rt r c1;
          (orders', c3) = getOrderHistory rt r None c2;
          (trades', c4) = getTradeHistory rt r None c3;
          (performance', c5) = getPerformanceMetrics r PR_ALL c4;
          (assetHistory', c6) = getAssetHistory rt r R_1M c5;
          (tradeStats', c7) = getTradeStatistics rt r None c6;
          (strategies', c8) = getStrategies r c7;
          (risk', c9) = getRiskMetrics r c8;
          (notifications', c10) = getNotifications rt r c9
      in Inr (emptyPatch\<lparr> p_balance := Some balance', p_positions := Some positions',
                p_orders := Some orders', p_trades := Some trades',
                p_performance := Some (Some performance'), p_assetHistory := Some assetHistory',
                p_tradeStats := Some (Some tradeStats'), p_strategies := Some strategies',
                p_risk := Some (Some risk'), p_notifications := Some notifications' \<rparr>, c10))"

section \<open>The provider (context/AccountContext.tsx)\<close>

text \<open>
  The state of the running page: the store's state and the module variables of the
  data-access layer. A \<open>dispatch\<close> replaces the store's state by the reducer's result.
\<close>

record world =
  account :: accountState
  cached :: caches

definition dispatch :: "runtime \<Rightarrow> string \<Rightarrow> accountAction \<Rightarrow> world \<Rightarrow> world" where
  "dispatch rt clock action w =
     w\<lparr>account := accountReducer (getTime rt) clock (account w) action\<rparr>"

definition setLoading :: "runtime \<Rightarrow> string \<Rightarrow> bool \<Rightarrow> world \<Rightarrow> world" where
  "setLoading rt clock flag = dispatch rt clock (SET_LOADING flag)"

definition setError :: "runtime \<Rightarrow> string \<Rightarrow> string option \<Rightarrow> world \<Rightarrow> world" where
  "setError rt clock err = dispatch rt clock (SET_ERROR err)"

text \<open>
  \<open>loadInitialData\<close>: \<open>try\<close>, \<open>catch\<close> and \<open>finally\<close> in the order they run. \<open>clock\<close> is the
  reading of \<open>new Date().toISOString()\<close> in the payload.
\<close>

definition loadInitialData :: "runtime \<Rightarrow> remote \<Rightarrow> string \<Rightarrow> world \<Rightarrow> world" where
  "loadInitialData rt r clock w =
     (let w1 = setLoading rt clock True w;
          w2 = (case getInitialAccountState rt r (cached w1) of
                  Inr (data, c) \<Rightarrow>
                    dispatch rt clock
                      (SET_STATE (data\<lparr> p_performanceRange := Some PR_ALL,
                                         p_assetHistoryRange := Some R_1M,
                                         p_loading := Some False,
                                         p_error := Some None,
                                         p_lastUpdated := Some clock \<rparr>))
                      (w1\<lparr>cached := c\<rparr>)
                | Inl message \<Rightarrow> setError rt clock (Some message) w1)
      in setLoading rt clock False w2)"

text \<open>
  \<open>toggleStrategyStatus\<close>: \<open>strategy?.status === 'running' ? 'stopped' : 'running'\<close>, with
  \<open>strategy\<close> undefined when no item has the id. \<open>clock\<close> is the reading inside
  \<open>updateStrategyStatus\<close>, \<open>clock'\<close> the one inside the reducer.
\<close>

definition toggleStrategyStatus ::
  "runtime \<Rightarrow> remote \<Rightarrow> string \<Rightarrow> string \<Rightarrow> string \<Rightarrow> world \<Rightarrow> world" where
  "toggleStrategyStatus rt r clock clock' strategyId w =
     (let strategy = find (\<lambda>item. strategy_id item = strategyId) (strategies (account w));
          nextStatus = (if map_option strategy_status strategy = Some running
                        then stopped else running);
          (updatedStrategies, c) = updateStrategyStatus r clock strategyId nextStatus (cached w)
      in dispatch rt clock' (SET_STRATEGIES updatedStrategies) (w\<lparr>cached := c\<rparr>))"

text \<open>
  A realtime message as the handler's type has it, a tagged union on \<open>type\<close>; the last
  constructor is any other object with a \<open>type\<close> key, which the listener passes on after
  its unchecked cast. \<open>messageType\<close> is the discriminant the \<open>switch\<close> reads.
\<close>

datatype realtimeMessage =
    Balance_update "balance list"
  | Position_update position
  | Order_update order
  | Trade_update trade
  | Risk_update riskMetrics
  | Notification_message notification
  | Other_message string

fun messageType :: "realtimeMessage \<Rightarrow> string" where
  "messageType (Balance_update payload) = ''balance_update''"
| "messageType (Position_update payload) = ''position_update''"
| "messageType (Order_update payload) = ''order_update''"
| "messageType (Trade_update payload) = ''trade_update''"
| "messageType (Risk_update payload) = ''risk_update''"
| "messageType (Notification_message payload) = ''notification''"
| "messageType (Other_message t) = t"

fun handleRealtimeMessage :: "runtime \<Rightarrow> string \<Rightarrow> realtimeMessage \<Rightarrow> world \<Rightarrow> world" where
  "handleRealtimeMessage rt clock (Balance_update payload) w =
     dispatch rt clock (UPSERT_BALANCES payload) w"
| "handleRealtimeMessage rt clock (Position_update payload) w =
     dispatch rt clock (UPSERT_POSITION payload) w"
| "handleRealtimeMessage rt clock (Order_update payload) w =
     dispatch rt clock (UPSERT_ORDER payload) w"
| "handleRealtimeMessage rt clock (Trade_update payload) w =
     dispatch rt clock (UPSERT_TRADE payload) w"
| "handleRealtimeMessage rt clock (Risk_update payload) w =
     dispatch rt clock (SET_RISK payload) (w\<lparr>cached := setRiskCache payload (cached w)\<rparr>)"
| "handleRealtimeMessage rt clock (Notification_message payload) w =
     dispatch rt clock (ADD_NOTIFICATION payload) w"
| "handleRealtimeMessage rt clock (Other_message t) w = w"

text \<open>
  The discriminants the \<open>switch\<close> knows, and the routing table as the specification words
  it: one store action for each of the six message types, none for any other message.
\<close>

definition recognisedTypes :: "string list" where
  "recognisedTypes = [''balance_update'', ''position_update'', ''order_update'',
     ''trade_update'', ''risk_update'', ''notification'']"

fun routingTable :: "realtimeMessage \<Rightarrow> accountAction option" where
  "routingTable (Balance_update payload) = Some (UPSERT_BALANCES payload)"
| "routingTable (Position_update payload) = Some (UPSERT_POSITION payload)"
| "routingTable (Order_update payload) = Some (UPSERT_ORDER payload)"
| "routingTable (Trade_update payload) = Some (UPSERT_TRADE payload)"
| "routingTable (Risk_update payload) = Some (SET_RISK payload)"
| "routingTable (Notification_message payload) = Some (ADD_NOTIFICATION payload)"
| "routingTable (Other_message t) = None"

text \<open>Every request that \<open>getInitialAccountState\<close> issues fails, that is, throws.\<close>

definition allFetchesFail :: "remote \<Rightarrow> bool" where
  "allFetchesFail r =
     (isl (r_balance r) \<and> isl (r_positions r) \<and> isl (r_orders r None) \<and> isl (r_trades r None)
      \<and> isl (r_performance r PR_ALL) \<and> isl (r_assetHistory r R_1M)
      \<and> isl (r_tradeStats r None) \<and> isl (r_strategies r) \<and> isl (r_risk r)
      \<and> isl (r_notifications r))"

section \<open>The realtime transport (utils/websocket)\<close>

text \<open>
  The client runs on a browser's event loop. The part of the browser it touches is
  explicit: the sockets it has constructed, each with its \<open>readyState\<close>, and the pending
  timeouts. Every timeout the client sets has the callback \<open>() => this.connect()\<close>, so a
  pending timeout is its handle and its delay in milliseconds. \<open>setTimeout\<close> returns a
  fresh positive handle; a timeout that was cleared, or that has fired, is no longer
  pending. \<open>emitted\<close> is the log of the events passed to \<open>emit\<close>; the listeners are assumed
  not to call back into the client.
\<close>

datatype readyState = CONNECTING | WS_OPEN | CLOSING | CLOSED

record browser =
  sockets :: "readyState list"
  timeouts :: "(nat \<times> nat) list"
  nextHandle :: nat
  emitted :: "string list"

definition setTimeout :: "nat \<Rightarrow> 'a browser_scheme \<Rightarrow> nat \<times> 'a browser_scheme" where
  "setTimeout delay b =
     (nextHandle b,
      b\<lparr>timeouts := timeouts b @ [(nextHandle b, delay)], nextHandle := Suc (nextHandle b)\<rparr>)"

definition clearTimeout :: "nat \<Rightarrow> 'a browser_scheme \<Rightarrow> 'a browser_scheme" where
  "clearTimeout h b = b\<lparr>timeouts := filter (\<lambda>(h', delay). h' \<noteq> h) (timeouts b)\<rparr>"

definition newWebSocket :: "'a browser_scheme \<Rightarrow> nat \<times> 'a browser_scheme" where
  "newWebSocket b = (length (sockets b), b\<lparr>sockets := sockets b @ [CONNECTING]\<rparr>)"

definition readyStateOf :: "'a browser_scheme \<Rightarrow> nat \<Rightarrow> readyState option" where
  "readyStateOf b i = (if i < length (sockets b) then Some (sockets b ! i) else None)"

text \<open>
  \<open>WebSocket.close()\<close>: a socket that is connecting or open starts closing, and its \<open>close\<close>
  event comes later; on a socket that is closing or closed the call does nothing.
\<close>

definition closeSocket :: "nat \<Rightarrow> 'a browser_scheme \<Rightarrow> 'a browser_scheme" where
  "closeSocket i b =
     (if readyStateOf b i = Some CONNECTING \<or> readyStateOf b i = Some WS_OPEN
      then b\<lparr>sockets := (sockets b)[i := CLOSING]\<rparr> else b)"

definition emit :: "string \<Rightarrow> 'a browser_scheme \<Rightarrow> 'a browser_scheme" where
  "emit event b = b\<lparr>emitted := emitted b @ [event]\<rparr>"

definition reconnectInterval :: nat where
  "reconnectInterval = 5000"

subsection \<open>The first class of the file (plain JavaScript)\<close>

record jsClient = browser +
  js_ws :: "nat option"

definition js_new :: jsClient where
  "js_new = \<lparr> sockets = [], timeouts = [], nextHandle = 1, emitted = [], js_ws = None \<rparr>"

text \<open>
  \<open>connect()\<close>: \<open>throws\<close> says whether \<open>new WebSocket(url)\<close> throws; the \<open>catch\<close> only logs.
\<close>

definition js_connect :: "bool \<Rightarrow> jsClient \<Rightarrow> jsClient" where
  "js_connect throws t =
     (if throws then t
      else (let (i, t') = newWebSocket t in t'\<lparr>js_ws := Some i\<rparr>))"

definition js_onopen :: "jsClient \<Rightarrow> jsClient" where
  "js_onopen t = emit ''open'' t"

definition js_onclose :: "jsClient \<Rightarrow> jsClient" where
  "js_onclose t = snd (setTimeout reconnectInterval (emit ''close'' t))"

definition js_disconnect :: "jsClient \<Rightarrow> jsClient" where
  "js_disconnect t = (case js_ws t of Some i \<Rightarrow> closeSocket i t | None \<Rightarrow> t)"

text \<open>
  What the browser does to the client: socket \<open>i\<close> opens, socket \<open>i\<close> closes (the handler
  runs with the socket already \<open>CLOSED\<close>), timeout \<open>h\<close> fires (only while it is pending).
\<close>

definition js_socketOpens :: "nat \<Rightarrow> jsClient \<Rightarrow> jsClient" where
  "js_socketOpens i t = js_onopen (t\<lparr>sockets := (sockets t)[i := WS_OPEN]\<rparr>)"

definition js_socketCloses :: "nat \<Rightarrow> jsClient \<Rightarrow> jsClient" where
  "js_socketCloses i t = js_onclose (t\<lparr>sockets := (sockets t)[i := CLOSED]\<rparr>)"

definition js_timeoutFires :: "bool \<Rightarrow> nat \<Rightarrow> jsClient \<Rightarrow> jsClient" where
  "js_timeoutFires throws h t =
     (if h \<in> fst ` set (timeouts t) then js_connect throws (clearTimeout h t) else t)"

subsection \<open>The second class of the file (TypeScript)\<close>

text \<open>
  The model is of the client in a browser, where \<open>typeof window\<close> is not \<open>'undefined'\<close>.
  \<open>if (this.reconnectTimer)\<close> is false for \<open>null\<close> and for the number \<open>0\<close>.
\<close>

record tsClient = browser +
  ws :: "nat option"
  reconnectTimer :: "nat option"
  manualClose :: bool

definition ts_new :: tsClient where
  "ts_new = \<lparr> sockets = [], timeouts = [], nextHandle = 1, emitted = [],
              ws = None, reconnectTimer = None, manualClose = False \<rparr>"

definition timerSet :: "nat option \<Rightarrow> bool" where
  "timerSet h = (case h of None \<Rightarrow> False | Some n \<Rightarrow> n \<noteq> 0)"

definition scheduleReconnect :: "tsClient \<Rightarrow> tsClient" where
  "scheduleReconnect t =
     (let t1 = (case reconnectTimer t of
                  Some h \<Rightarrow> if timerSet (Some h) then clearTimeout h t else t
                | None \<Rightarrow> t);
          (h', t2) = setTimeout reconnectInterval t1
      in t2\<lparr>reconnectTimer := Some h'\<rparr>)"

definition ts_connect :: "bool \<Rightarrow> tsClient \<Rightarrow> tsClient" where
  "ts_connect throws t =
     (if (case ws t of Some i \<Rightarrow> readyStateOf t i = Some WS_OPEN | None \<Rightarrow> False) then t
      else if throws then scheduleReconnect t
      else (let (i, t') = newWebSocket t in t'\<lparr>ws := Some i\<rparr>))"

definition ts_onopen :: "tsClient \<Rightarrow> tsClient" where
  "ts_onopen t = emit ''open'' t"

definition ts_onclose :: "tsClient \<Rightarrow> tsClient" where
  "ts_onclose t =
     (let t1 = emit ''close'' t
      in if \<not> manualClose t1 then scheduleReconnect t1 else t1)"

definition ts_disconnect :: "tsClient \<Rightarrow> tsClient" where
  "ts_disconnect t =
     (let t1 = t\<lparr>manualClose := True\<rparr>;
          t2 = (case reconnectTimer t1 of
                  Some h \<Rightarrow> if timerSet (Some h)
                            then (clearTimeout h t1)\<lparr>reconnectTimer := None\<rparr> else t1
                | None \<Rightarrow> t1)
      in (case ws t2 of
            Some i \<Rightarrow> (closeSocket i t2)\<lparr>ws := None\<rparr>
          | None \<Rightarrow> t2))"

definition ts_socketOpens :: "nat \<Rightarrow> tsClient \<Rightarrow> tsClient" where
  "ts_socketOpens i t = ts_onopen (t\<lparr>sockets := (sockets t)[i := WS_OPEN]\<rparr>)"

definition ts_socketCloses :: "nat \<Rightarrow> tsClient \<Rightarrow> tsClient" where
  "ts_socketCloses i t = ts_onclose (t\<lparr>sockets := (sockets t)[i := CLOSED]\<rparr>)"

definition ts_timeoutFires :: "bool \<Rightarrow> nat \<Rightarrow> tsClient \<Rightarrow> tsClient" where
  "ts_timeoutFires throws h t =
     (if h \<in> fst ` set (timeouts t) then ts_connect throws (clearTimeout h t) else t)"

text \<open>
  The transport is open when its current socket is; its pending reconnects are tracked
  when every pending timeout is the one \<open>reconnectTimer\<close> holds.
\<close>

definition js_isOpen :: "jsClient \<Rightarrow> bool" where
  "js_isOpen t = (case js_ws t of Some i \<Rightarrow> readyStateOf t i = Some WS_OPEN | None \<Rightarrow> False)"

definition ts_isOpen :: "tsClient \<Rightarrow> bool" where
  "ts_isOpen t = (case ws t of Some i \<Rightarrow> readyStateOf t i = Some WS_OPEN | None \<Rightarrow> False)"

definition tracked :: "tsClient \<Rightarrow> bool" where
  "tracked t =
     (list_all (\<lambda>(h, delay). reconnectTimer t = Some h \<and> h \<noteq> 0) (timeouts t)
      \<and> list_all (\<lambda>(h, delay). h < nextHandle t) (timeouts t)
      \<and> 0 < nextHandle t)"

section \<open>Concrete inputs for the instances\<close>

text \<open>
  An excerpt of the two \<open>Date\<close> functions, on the instants the instances below use. A
  string outside the table stands for one that is no date; no instance prints an instant
  outside the table.
\<close>

definition dateTable :: "(int \<times> string) list" where
  "dateTable =
     [(1709290800000, ''2024-03-01T11:00:00.000Z''),
      (1709287200000, ''2024-03-01T10:00:00.000Z''),
      (1709283600000, ''2024-03-01T09:00:00.000Z''),
      (1709280000000, ''2024-03-01T08:00:00.000Z''),
      (1709276400000, ''2024-03-01T07:00:00.000Z''),
      (1709269200000, ''2024-03-01T05:00:00.000Z''),
      (1709265600000, ''2024-03-01T04:00:00.000Z''),
      (1709229600000, ''2024-02-29T18:00:00.000Z''),
      (1709208000000, ''2024-02-29T12:00:00.000Z''),
      (1709121600000, ''2024-02-28T12:00:00.000Z''),
      (1709035200000, ''2024-02-27T12:00:00.000Z''),
      (1708862400000, ''2024-02-25T12:00:00.000Z''),
      (1708603200000, ''2024-02-22T12:00:00.000Z''),
      (1708257600000, ''2024-02-18T12:00:00.000Z''),
      (1707566400000, ''2024-02-10T12:00:00.000Z''),
      (1705924800000, ''2024-01-22T12:00:00.000Z''),
      (1702209600000, ''2023-12-10T12:00:00.000Z''),
      (1709294400000, ''2024-03-01T12:00:00.000Z''),
      (1708430400000, ''2024-02-20T12:00:00.000Z''),
      (10, ''1970-01-01T00:00:00.010Z''),
      (15, ''1970-01-01T00:00:00.015Z''),
      (20, ''1970-01-01T00:00:00.020Z'')]"

definition demoToISO :: "int \<Rightarrow> string" where
  "demoToISO t = (case map_of dateTable t of Some s \<Rightarrow> s | None \<Rightarrow> [])"

definition demoGetTime :: "string \<Rightarrow> int option" where
  "demoGetTime s = map_of (map (\<lambda>(t, s). (s, t)) dateTable) s"

definition demoNow :: int where
  "demoNow = 1709294400000"

definition demoClock :: string where
  "demoClock = ''2024-03-01T12:00:00.000Z''"

definition demoRuntime :: runtime where
  "demoRuntime = \<lparr> getTime = demoGetTime, toISOString = demoToISO, loadTime = demoNow,
     heatmapCells = [], getMockAssetHistory = (\<lambda>rng. []) \<rparr>"

definition demoOrder :: "string \<Rightarrow> string \<Rightarrow> order" where
  "demoOrder i t = \<lparr> order_id = i, order_timestamp = t, order_symbol = ''BTC/USDT'',
     order_type = LIMIT, order_side = BUY, order_price = 38000, order_quantity = 1,
     order_filledQuantity = 0, order_status = OPEN \<rparr>"

definition demoTrade :: "string \<Rightarrow> string \<Rightarrow> trade" where
  "demoTrade i t = \<lparr> trade_id = i, trade_orderId = ''A'', trade_timestamp = t,
     trade_symbol = ''BTC/USDT'', trade_side = BUY, trade_price = 38000, trade_quantity = 1,
     trade_fee = 0, trade_strategy = None \<rparr>"

definition demoPosition :: "string \<Rightarrow> real \<Rightarrow> position" where
  "demoPosition s mark = \<lparr> position_symbol = s, position_direction = LONG, position_size = 1,
     position_entryPrice = 36800, position_markPrice = mark,
     position_pnl = \<lparr>pnl_value = 0, pnl_percentage = 0\<rparr>, position_margin = 9200,
     position_updatedAt = demoClock, position_strategy = None \<rparr>"

definition demoNotification :: "nat \<Rightarrow> notification" where
  "demoNotification k = \<lparr> notification_id = replicate k (CHR ''n''),
     notification_category = cat_system, notification_title = ''t'',
     notification_message = ''m'', notification_timestamp = ''2024-03-01T00:00:00.000Z'',
     notification_read = False, notification_severity = info \<rparr>"

text \<open>A remote whose every call fails.\<close>

definition failingRemote :: remote where
  "failingRemote = \<lparr> r_balance = Inl ''Network Error'', r_positions = Inl ''Network Error'',
     r_orders = (\<lambda>f. Inl ''Network Error''), r_trades = (\<lambda>f. Inl ''Network Error''),
     r_performance = (\<lambda>rng. Inl ''Network Error''),
     r_assetHistory = (\<lambda>rng. Inl ''Network Error''),
     r_tradeStats = (\<lambda>f. Inl ''Network Error''), r_strategies = Inl ''Network Error'',
     r_strategyStatus = (\<lambda>i s. Inl ''Network Error''), r_risk = Inl ''Network Error'',
     r_notifications = Inl ''Network Error'', r_acknowledge = (\<lambda>i. Inl ''Network Error'') \<rparr>"

definition demoWorld :: world where
  "demoWorld = \<lparr> account = initialState, cached = initialCaches demoToISO demoNow \<rparr>"

text \<open>
  The scenario of the specification: orders \<open>A\<close> (at 10 ms) and \<open>B\<close> (at 20 ms), then an
  upsert of \<open>C\<close> (at 15 ms). The trades are the same with \<open>T\<close> in front.
\<close>

definition scenarioState :: accountState where
  "scenarioState = initialState\<lparr>
     orders := [demoOrder ''A'' ''1970-01-01T00:00:00.010Z'',
                demoOrder ''B'' ''1970-01-01T00:00:00.020Z''],
     trades := [demoTrade ''TA'' ''1970-01-01T00:00:00.010Z'',
                demoTrade ''TB'' ''1970-01-01T00:00:00.020Z'']\<rparr>"

definition scenarioOrders :: "(string \<times> order) list" where
  "scenarioOrders = [(demoClock, demoOrder ''C'' ''1970-01-01T00:00:00.015Z'')]"

definition scenarioTrades :: "(string \<times> trade) list" where
  "scenarioTrades = [(demoClock, demoTrade ''TC'' ''1970-01-01T00:00:00.015Z'')]"

text \<open>Two orders with different ids and one timestamp; a state that holds one id twice.\<close>

definition tiedOrders :: "(string \<times> order) list" where
  "tiedOrders = [(demoClock, demoOrder ''A'' ''1970-01-01T00:00:00.010Z''),
                 (demoClock, demoOrder ''B'' ''1970-01-01T00:00:00.010Z'')]"

definition duplicateState :: accountState where
  "duplicateState = initialState\<lparr>
     orders := [demoOrder ''A'' ''1970-01-01T00:00:00.020Z'',
                demoOrder ''A'' ''1970-01-01T00:00:00.010Z'']\<rparr>"

text \<open>A state that holds the symbol \<open>BTC/USDT\<close> twice, and one notification.\<close>

definition twoPositionsState :: accountState where
  "twoPositionsState = initialState\<lparr>
     positions := [demoPosition ''BTC/USDT'' 38000, demoPosition ''BTC/USDT'' 38100]\<rparr>"

definition oneNotificationState :: accountState where
  "oneNotificationState = initialState\<lparr>notifications := [demoNotification 1]\<rparr>"

text \<open>A remote whose status mutation answers with one strategy in the requested status.\<close>

definition demoStrategy :: "string \<Rightarrow> strategyStatus \<Rightarrow> strategy" where
  "demoStrategy i st = \<lparr> strategy_id = i, strategy_name = ''Grid Bot'', strategy_status = st,
     strategy_pnl = 3400, strategy_winRate = 0.55, strategy_trades = 180,
     strategy_description = None, strategy_lastUpdated = demoClock \<rparr>"

definition answeringRemote :: remote where
  "answeringRemote = failingRemote\<lparr>r_strategyStatus := (\<lambda>i st. Inr [demoStrategy i st])\<rparr>"



text \<open>A client of each class after \<open>connect()\<close> and the \<open>open\<close> event of its socket.\<close>

definition jsOpenTransport :: jsClient where
  "jsOpenTransport = js_socketOpens 0 (js_connect False js_new)"

definition tsOpenTransport :: tsClient where
  "tsOpenTransport = ts_socketOpens 0 (ts_connect False ts_new)"

text \<open>
  The page after an initial load, a toggle of \<open>strat-001\<close> and a second initial load (the
  provider is mounted again), every call of the remote failing throughout.
\<close>

definition reloadedWorld :: world where
  "reloadedWorld =
     loadInitialData demoRuntime failingRemote demoClock
       (toggleStrategyStatus demoRuntime failingRemote demoClock demoClock ''strat-001''
          (loadInitialData demoRuntime failingRemote demoClock demoWorld))"

section \<open>Evaluation of the concrete inputs\<close>

lemma demoGetTime_simps:
  "demoGetTime ''1970-01-01T00:00:00.010Z'' = Some 10"
  "demoGetTime ''1970-01-01T00:00:00.015Z'' = Some 15"
  "demoGetTime ''1970-01-01T00:00:00.020Z'' = Some 20"
  by (simp_all add: demoGetTime_def dateTable_def)

section \<open>Notifications are capped at fifty\<close>

lemma dispatchAll_append:
  "dispatchAll gt s (xs @ ys) = dispatchAll gt (dispatchAll gt s xs) ys"
  by (induction xs arbitrary: s) auto

lemma take_append_take: "take k (xs @ take k ys) = take k (xs @ ys)"
  by (simp add: min_def)

lemma adds_capped:
  "length (notifications s) \<le> 50 \<Longrightarrow>
   notifications (dispatchAll gt s (map (\<lambda>(c, n). (c, ADD_NOTIFICATION n)) cns))
     = take 50 (rev (map snd cns) @ notifications s)"
proof (induction cns arbitrary: s)
  case Nil
  then show ?case by simp
next
  case (Cons a cns)
  obtain c n where a: "a = (c, n)" by (cases a)
  let ?s' = "accountReducer gt c s (ADD_NOTIFICATION n)"
  have len: "length (notifications ?s') \<le> 50" by simp
  have "take 50 (rev (map snd cns) @ take 50 (n # notifications s))
          = take 50 (rev (map snd cns) @ n # notifications s)"
    by (rule take_append_take)
  with Cons.IH [OF len] show ?case
    unfolding a by simp
qed

lemma adds_nonempty:
  "notifications (dispatchAll gt s (map (\<lambda>(c, n). (c, ADD_NOTIFICATION n)) ((c0, n0) # cns)))
     = take 50 (rev (map snd ((c0, n0) # cns)) @ notifications s)"
proof -
  let ?s' = "accountReducer gt c0 s (ADD_NOTIFICATION n0)"
  have len: "length (notifications ?s') \<le> 50" by simp
  have "take 50 (rev (map snd cns) @ take 50 (n0 # notifications s))
          = take 50 (rev (map snd cns) @ n0 # notifications s)"
    by (rule take_append_take)
  with adds_capped [OF len, of gt cns] show ?thesis by simp
qed

text \<open>
  C6. From any state, fifty-one \<open>AddNotification\<close> actions in sequence leave exactly fifty
  notifications: the fifty added last, the newest first.
\<close>

theorem add_notification_51:
  assumes "length cns = 51"
  shows "notifications (dispatchAll gt s (map (\<lambda>(c, n). (c, ADD_NOTIFICATION n)) cns))
           = take 50 (rev (map snd cns))
       \<and> length (notifications
            (dispatchAll gt s (map (\<lambda>(c, n). (c, ADD_NOTIFICATION n)) cns))) = 50"
proof -
  from assms obtain c0 n0 rest where cns: "cns = (c0, n0) # rest"
    by (cases cns) auto
  have "notifications (dispatchAll gt s (map (\<lambda>(c, n). (c, ADD_NOTIFICATION n)) cns))
          = take 50 (rev (map snd cns) @ notifications s)"
    unfolding cns by (rule adds_nonempty)
  also have "\<dots> = take 50 (rev (map snd cns))"
    using assms by simp
  finally show ?thesis using assms by simp
qed

theorem add_notification_51_witness:
  "length (map (\<lambda>k. (''2024-03-01T00:00:00.000Z'', demoNotification k)) [0..<51]) = 51
   \<and> map notification_id (notifications (dispatchAll (\<lambda>s. None) initialState
        (map (\<lambda>(c, n). (c, ADD_NOTIFICATION n))
          (map (\<lambda>k. (''2024-03-01T00:00:00.000Z'', demoNotification k)) [0..<51]))))
      = map (\<lambda>k. replicate k (CHR ''n'')) (rev [1..<51])"
proof (intro conjI)
  let ?cns = "map (\<lambda>k. (''2024-03-01T00:00:00.000Z'', demoNotification k)) [0..<51]"
  show len: "length ?cns = 51" by simp
  have A: "notifications (dispatchAll (\<lambda>s. None) initialState
             (map (\<lambda>(c, n). (c, ADD_NOTIFICATION n)) ?cns)) = take 50 (rev (map snd ?cns))"
    using add_notification_51 [OF len, of "\<lambda>s. None" initialState] by (rule conjunct1)
  have "take 50 (rev [0..<51]) = rev [1..<51]"
    by (simp add: take_rev upt_conv_Cons)
  then have B: "map notification_id (take 50 (rev (map snd ?cns)))
           = map (\<lambda>k. replicate k (CHR ''n'')) (rev [1..<51])"
    by (simp add: comp_def take_map rev_map demoNotification_def)
  show "map notification_id (notifications (dispatchAll (\<lambda>s. None) initialState
        (map (\<lambda>(c, n). (c, ADD_NOTIFICATION n)) ?cns)))
      = map (\<lambda>k. replicate k (CHR ''n'')) (rev [1..<51])"
    by (simp only: A B)
qed

section \<open>Upserts keep orders and trades sorted and unique\<close>

lemma set_insertSorted: "set (insertSorted c x ys) = insert x (set ys)"
  by (induction ys) auto

lemma set_arraySort: "set (arraySort c xs) = set xs"
  by (induction xs) (auto simp: set_insertSorted)

lemma distinct_key_insertSorted:
  "distinct (map k (insertSorted c x ys)) = (k x \<notin> k ` set ys \<and> distinct (map k ys))"
  by (induction ys) (auto simp: set_insertSorted)

lemma distinct_key_arraySort:
  "distinct (map k (arraySort c xs)) = distinct (map k xs)"
  by (induction xs) (auto simp: distinct_key_insertSorted set_arraySort)

lemma descending_iff:
  "descending ts = ((\<forall>t \<in> set ts. t \<noteq> None) \<and> sorted_wrt (\<lambda>a b. the b \<le> the a) ts)"
proof (induction ts rule: descending.induct)
  case 1
  then show ?case by simp
next
  case (2 t)
  then show ?case by simp
next
  case (3 t u r)
  then show ?case
    by (cases t; cases u) (auto, force+)
qed

lemma find_append_cases:
  "find P (xs @ ys) = (case find P xs of Some x \<Rightarrow> Some x | None \<Rightarrow> find P ys)"
  by (induction xs) auto

lemma sorted_insertSorted:
  assumes "\<forall>y \<in> set (x # ys). gt (ts y) \<noteq> None"
    and "sorted_wrt (\<lambda>a b. the (gt (ts b)) \<le> the (gt (ts a))) ys"
  shows "sorted_wrt (\<lambda>a b. the (gt (ts b)) \<le> the (gt (ts a)))
           (insertSorted (\<lambda>p q. compareDesc gt (ts p) (ts q)) x ys)"
  using assms
proof (induction ys)
  case Nil
  then show ?case by simp
next
  case (Cons y ys)
  from Cons.prems obtain a b where ab: "gt (ts x) = Some a" "gt (ts y) = Some b"
    by auto
  show ?case
  proof (cases "b - a \<le> 0")
    case True
    with Cons.prems ab show ?thesis
      by (auto simp: sortCompare_def compareDesc_def)
  next
    case False
    with Cons ab show ?thesis
      by (auto simp: sortCompare_def compareDesc_def set_insertSorted)
  qed
qed

lemma sorted_arraySort:
  "\<forall>y \<in> set xs. gt (ts y) \<noteq> None \<Longrightarrow>
   sorted_wrt (\<lambda>a b. the (gt (ts b)) \<le> the (gt (ts a)))
     (arraySort (\<lambda>p q. compareDesc gt (ts p) (ts q)) xs)"
  by (induction xs) (auto intro!: sorted_insertSorted simp: set_arraySort)

lemma descending_arraySort:
  assumes "\<forall>y \<in> set xs. gt (ts y) \<noteq> None"
  shows "descending (map (\<lambda>y. gt (ts y)) (arraySort (\<lambda>p q. compareDesc gt (ts p) (ts q)) xs))"
  using assms sorted_arraySort [OF assms]
  by (simp add: descending_iff set_arraySort sorted_wrt_map)

lemma find_key_distinct:
  "distinct (map k xs) \<Longrightarrow> (find (\<lambda>y. k y = i) xs = Some x) = (x \<in> set xs \<and> k x = i)"
  by (induction xs) (auto)

lemma find_key_cong:
  assumes "distinct (map k xs)" "distinct (map k ys)" "set xs = set ys"
  shows "find (\<lambda>y. k y = i) xs = find (\<lambda>y. k y = i) ys"
proof (cases "find (\<lambda>y. k y = i) xs")
  case None
  then have "\<forall>y \<in> set ys. k y \<noteq> i" using assms(3) by (auto simp: find_None_iff)
  then have "find (\<lambda>y. k y = i) ys = None" by (auto simp: find_None_iff)
  with None show ?thesis by simp
next
  case (Some x)
  then have "x \<in> set ys \<and> k x = i"
    using find_key_distinct [OF assms(1)] assms(3) by auto
  then have "find (\<lambda>y. k y = i) ys = Some x"
    using find_key_distinct [OF assms(2)] by auto
  with Some show ?thesis by simp
qed

lemma distinct_upsertById:
  "distinct (map k xs) \<Longrightarrow> distinct (map k (upsertById c k xs x))"
  unfolding upsertById_def distinct_key_arraySort
  by (auto simp: distinct_map_filter)

lemma set_upsertById: "set (upsertById c k xs x) = insert x {y \<in> set xs. k y \<noteq> k x}"
  unfolding upsertById_def set_arraySort by auto

lemma find_upsertById:
  assumes "distinct (map k xs)"
  shows "find (\<lambda>y. k y = i) (upsertById c k xs x)
           = (if k x = i then Some x else find (\<lambda>y. k y = i) xs)"
proof -
  have d: "distinct (map k (x # filter (\<lambda>y. k y \<noteq> k x) xs))"
    using assms by (auto simp: distinct_map_filter)
  have "find (\<lambda>y. k y = i) (upsertById c k xs x)
          = find (\<lambda>y. k y = i) (x # filter (\<lambda>y. k y \<noteq> k x) xs)"
    unfolding upsertById_def
  proof (rule find_key_cong)
    show "distinct (map k (arraySort c (x # filter (\<lambda>y. k y \<noteq> k x) xs)))"
      unfolding distinct_key_arraySort by (rule d)
    show "distinct (map k (x # filter (\<lambda>y. k y \<noteq> k x) xs))" by (rule d)
    show "set (arraySort c (x # filter (\<lambda>y. k y \<noteq> k x) xs))
            = set (x # filter (\<lambda>y. k y \<noteq> k x) xs)"
      by (rule set_arraySort)
  qed
  also have "\<dots> = (if k x = i then Some x else find (\<lambda>y. k y = i) xs)"
  proof (cases "k x = i")
    case True
    then show ?thesis by simp
  next
    case False
    have "find (\<lambda>y. k y = i) (filter (\<lambda>y. k y \<noteq> k x) xs) = find (\<lambda>y. k y = i) xs"
      using False by (induction xs) auto
    with False show ?thesis by simp
  qed
  finally show ?thesis .
qed

lemma find_foldl_upsert:
  "distinct (map k xs) \<Longrightarrow>
   find (\<lambda>y. k y = i) (foldl (upsertById c k) xs ps)
     = (case find (\<lambda>y. k y = i) (rev ps) of Some p \<Rightarrow> Some p
        | None \<Rightarrow> find (\<lambda>y. k y = i) xs)"
proof (induction ps arbitrary: xs)
  case Nil
  then show ?case by simp
next
  case (Cons p ps)
  have d: "distinct (map k (upsertById c k xs p))"
    using Cons.prems by (rule distinct_upsertById)
  show ?case
    using Cons.IH [OF d] Cons.prems
    by (auto simp: find_upsertById find_append_cases split: option.splits)
qed

lemma distinct_foldl_upsert:
  "distinct (map k xs) \<Longrightarrow> distinct (map k (foldl (upsertById c k) xs ps))"
  by (induction ps arbitrary: xs) (auto simp: distinct_upsertById)

lemma set_foldl_upsert: "set (foldl (upsertById c k) xs ps) \<subseteq> set xs \<union> set ps"
proof (induction ps arbitrary: xs)
  case Nil
  then show ?case by simp
next
  case (Cons p ps)
  then show ?case using Cons.IH [of "upsertById c k xs p"]
    by (auto simp: set_upsertById)
qed

lemma descending_foldl_upsert:
  assumes "ps \<noteq> []" and "\<forall>y \<in> set xs \<union> set ps. gt (ts y) \<noteq> None"
  shows "descending (map (\<lambda>y. gt (ts y))
           (foldl (upsertById (\<lambda>p q. compareDesc gt (ts p) (ts q)) k) xs ps))"
proof -
  let ?c = "\<lambda>p q. compareDesc gt (ts p) (ts q)"
  from assms(1) obtain qs q where ps: "ps = qs @ [q]"
    by (cases ps rule: rev_cases) auto
  let ?mid = "foldl (upsertById ?c k) xs qs"
  have "set ?mid \<subseteq> set xs \<union> set qs" by (rule set_foldl_upsert)
  then have "\<forall>y \<in> set (q # filter (\<lambda>y. k y \<noteq> k q) ?mid). gt (ts y) \<noteq> None"
    using assms(2) ps by auto
  then have "descending (map (\<lambda>y. gt (ts y)) (arraySort ?c (q # filter (\<lambda>y. k y \<noteq> k q) ?mid)))"
    by (rule descending_arraySort)
  then show ?thesis by (simp add: ps upsertById_def)
qed

lemma orders_dispatchAll:
  "orders (dispatchAll gt s (map (\<lambda>(c, p). (c, UPSERT_ORDER p)) cps))
     = foldl (upsertById (\<lambda>a b. compareDesc gt (order_timestamp a) (order_timestamp b)) order_id)
         (orders s) (map snd cps)"
proof (induction cps arbitrary: s)
  case Nil
  then show ?case by simp
next
  case (Cons cp cps)
  obtain c p where cp: "cp = (c, p)" by (cases cp)
  show ?case unfolding cp by (simp add: Cons.IH upsertById_def)
qed

lemma trades_dispatchAll:
  "trades (dispatchAll gt s (map (\<lambda>(c, p). (c, UPSERT_TRADE p)) cps))
     = foldl (upsertById (\<lambda>a b. compareDesc gt (trade_timestamp a) (trade_timestamp b)) trade_id)
         (trades s) (map snd cps)"
proof (induction cps arbitrary: s)
  case Nil
  then show ?case by simp
next
  case (Cons cp cps)
  obtain c p where cp: "cp = (c, p)" by (cases cp)
  show ?case unfolding cp by (simp add: Cons.IH upsertById_def)
qed

lemma parsed_union:
  assumes "None \<notin> set (map (\<lambda>p. gt (ts p)) (xs @ ys))"
  shows "\<forall>y \<in> set xs \<union> set ys. gt (ts y) \<noteq> None"
proof
  fix y assume "y \<in> set xs \<union> set ys"
  then have "gt (ts y) \<in> set (map (\<lambda>p. gt (ts p)) (xs @ ys))"
    by auto
  with assms show "gt (ts y) \<noteq> None"
    by metis
qed

lemma upsert_orders_sorted_unique:
  assumes "ords \<noteq> []" and "distinct (map order_id (orders s))"
    and "None \<notin> set (orderTimes gt (orders s @ map snd ords))"
  shows "descending (orderTimes gt (orders (dispatchAll gt s (upsertOrders ords))))
       \<and> distinct (map order_id (orders (dispatchAll gt s (upsertOrders ords))))
       \<and> (\<forall>i. orderById i (orders (dispatchAll gt s (upsertOrders ords)))
                 = (case orderById i (rev (map snd ords)) of
                      Some p \<Rightarrow> Some p
                    | None \<Rightarrow> orderById i (orders s)))"
proof -
  have ne: "map snd ords \<noteq> []"
    using assms(1) by simp
  have parsed: "\<forall>y \<in> set (orders s) \<union> set (map snd ords). gt (order_timestamp y) \<noteq> None"
    using assms(3) unfolding orderTimes_def by (rule parsed_union)
  show ?thesis
    unfolding orderTimes_def orderById_def upsertOrders_def orders_dispatchAll
    using descending_foldl_upsert [OF ne parsed, of order_id]
      distinct_foldl_upsert [OF assms(2)] find_foldl_upsert [OF assms(2)]
    by simp
qed

lemma upsert_trades_sorted_unique:
  assumes "trds \<noteq> []" and "distinct (map trade_id (trades s))"
    and "None \<notin> set (tradeTimes gt (trades s @ map snd trds))"
  shows "descending (tradeTimes gt (trades (dispatchAll gt s (upsertTrades trds))))
       \<and> distinct (map trade_id (trades (dispatchAll gt s (upsertTrades trds))))
       \<and> (\<forall>i. tradeById i (trades (dispatchAll gt s (upsertTrades trds)))
                 = (case tradeById i (rev (map snd trds)) of
                      Some p \<Rightarrow> Some p
                    | None \<Rightarrow> tradeById i (trades s)))"
proof -
  have ne: "map snd trds \<noteq> []"
    using assms(1) by simp
  have parsed: "\<forall>y \<in> set (trades s) \<union> set (map snd trds). gt (trade_timestamp y) \<noteq> None"
    using assms(3) unfolding tradeTimes_def by (rule parsed_union)
  show ?thesis
    unfolding tradeTimes_def tradeById_def upsertTrades_def trades_dispatchAll
    using descending_foldl_upsert [OF ne parsed, of trade_id]
      distinct_foldl_upsert [OF assms(2)] find_foldl_upsert [OF assms(2)]
    by simp
qed

text \<open>
  C1, as the code has it. Take a state whose orders have pairwise distinct ids, and a
  non-empty sequence of \<open>UpsertOrder\<close> actions, all timestamps being dates. Then the
  resulting orders are in descending order of timestamp (equal timestamps may follow
  each other), no two of them share an id, and the entry under an id is the one written
  last under it, or the initial one when no action carries the id. The same for trades
  and \<open>UpsertTrade\<close>.
\<close>

theorem upsert_sorted_unique:
  "(ords \<noteq> [] \<and> distinct (map order_id (orders s))
      \<and> None \<notin> set (orderTimes gt (orders s @ map snd ords)) \<longrightarrow>
      descending (orderTimes gt (orders (dispatchAll gt s (upsertOrders ords))))
    \<and> distinct (map order_id (orders (dispatchAll gt s (upsertOrders ords))))
    \<and> (\<forall>i. orderById i (orders (dispatchAll gt s (upsertOrders ords)))
              = (case orderById i (rev (map snd ords)) of
                   Some p \<Rightarrow> Some p
                 | None \<Rightarrow> orderById i (orders s))))
   \<and> (trds \<noteq> [] \<and> distinct (map trade_id (trades s))
      \<and> None \<notin> set (tradeTimes gt (trades s @ map snd trds)) \<longrightarrow>
      descending (tradeTimes gt (trades (dispatchAll gt s (upsertTrades trds))))
    \<and> distinct (map trade_id (trades (dispatchAll gt s (upsertTrades trds))))
    \<and> (\<forall>i. tradeById i (trades (dispatchAll gt s (upsertTrades trds)))
              = (case tradeById i (rev (map snd trds)) of
                   Some p \<Rightarrow> Some p
                 | None \<Rightarrow> tradeById i (trades s))))"
proof (intro conjI impI)
  assume h: "ords \<noteq> [] \<and> distinct (map order_id (orders s))
      \<and> None \<notin> set (orderTimes gt (orders s @ map snd ords))"
  then have c: "descending (orderTimes gt (orders (dispatchAll gt s (upsertOrders ords))))
       \<and> distinct (map order_id (orders (dispatchAll gt s (upsertOrders ords))))
       \<and> (\<forall>i. orderById i (orders (dispatchAll gt s (upsertOrders ords)))
                 = (case orderById i (rev (map snd ords)) of
                      Some p \<Rightarrow> Some p
                    | None \<Rightarrow> orderById i (orders s)))"
    by (intro upsert_orders_sorted_unique) simp_all
  from c show "descending (orderTimes gt (orders (dispatchAll gt s (upsertOrders ords))))"
    by (rule conjunct1)
  from c show "distinct (map order_id (orders (dispatchAll gt s (upsertOrders ords))))"
    by simp
  from c show "\<forall>i. orderById i (orders (dispatchAll gt s (upsertOrders ords)))
                 = (case orderById i (rev (map snd ords)) of
                      Some p \<Rightarrow> Some p
                    | None \<Rightarrow> orderById i (orders s))"
    by simp
next
  assume h: "trds \<noteq> [] \<and> distinct (map trade_id (trades s))
      \<and> None \<notin> set (tradeTimes gt (trades s @ map snd trds))"
  then have c: "descending (tradeTimes gt (trades (dispatchAll gt s (upsertTrades trds))))
       \<and> distinct (map trade_id (trades (dispatchAll gt s (upsertTrades trds))))
       \<and> (\<forall>i. tradeById i (trades (dispatchAll gt s (upsertTrades trds)))
                 = (case tradeById i (rev (map snd trds)) of
                      Some p \<Rightarrow> Some p
                    | None \<Rightarrow> tradeById i (trades s)))"
    by (intro upsert_trades_sorted_unique) simp_all
  from c show "descending (tradeTimes gt (trades (dispatchAll gt s (upsertTrades trds))))"
    by (rule conjunct1)
  from c show "distinct (map trade_id (trades (dispatchAll gt s (upsertTrades trds))))"
    by simp
  from c show "\<forall>i. tradeById i (trades (dispatchAll gt s (upsertTrades trds)))
                 = (case tradeById i (rev (map snd trds)) of
                      Some p \<Rightarrow> Some p
                    | None \<Rightarrow> tradeById i (trades s))"
    by simp
qed

text \<open>The scenario of the specification: the resulting order of ids is \<open>B\<close>, \<open>C\<close>, \<open>A\<close>.\<close>

lemma scenario_order_ids:
  "map order_id (orders (dispatchAll demoGetTime scenarioState (upsertOrders scenarioOrders)))
     = [''B'', ''C'', ''A'']"
  by (simp add: scenarioState_def scenarioOrders_def upsertOrders_def demoOrder_def
      initialState_def compareDesc_def sortCompare_def demoGetTime_simps)

text \<open>
  C1 as stated fails: two orders with different ids and one timestamp are not in strictly
  descending order, and an id that the initial state holds twice is still held twice after
  an upsert of another id.
\<close>

theorem upsert_sorted_unique_counterexample:
  "\<not> strictlyDescending (orderTimes demoGetTime
        (orders (dispatchAll demoGetTime initialState (upsertOrders tiedOrders))))
   \<and> \<not> distinct (map order_id
        (orders (dispatchAll demoGetTime duplicateState (upsertOrders scenarioOrders))))"
  by (simp add: tiedOrders_def duplicateState_def scenarioOrders_def upsertOrders_def
      demoOrder_def initialState_def compareDesc_def sortCompare_def demoGetTime_simps
      orderTimes_def)

text \<open>The instance of the theorem at the scenario.\<close>

theorem upsert_sorted_unique_witness:
  "scenarioOrders \<noteq> [] \<and> scenarioTrades \<noteq> []
   \<and> distinct (map order_id (orders scenarioState))
   \<and> distinct (map trade_id (trades scenarioState))
   \<and> None \<notin> set (orderTimes demoGetTime (orders scenarioState @ map snd scenarioOrders))
   \<and> None \<notin> set (tradeTimes demoGetTime (trades scenarioState @ map snd scenarioTrades))
   \<and> descending (orderTimes demoGetTime
         (orders (dispatchAll demoGetTime scenarioState (upsertOrders scenarioOrders))))
   \<and> distinct (map order_id
         (orders (dispatchAll demoGetTime scenarioState (upsertOrders scenarioOrders))))
   \<and> orderById ''C''
         (orders (dispatchAll demoGetTime scenarioState (upsertOrders scenarioOrders)))
       = Some (demoOrder ''C'' ''1970-01-01T00:00:00.015Z'')
   \<and> descending (tradeTimes demoGetTime
         (trades (dispatchAll demoGetTime scenarioState (upsertTrades scenarioTrades))))
   \<and> distinct (map trade_id
         (trades (dispatchAll demoGetTime scenarioState (upsertTrades scenarioTrades))))
   \<and> tradeById ''TC''
         (trades (dispatchAll demoGetTime scenarioState (upsertTrades scenarioTrades)))
       = Some (demoTrade ''TC'' ''1970-01-01T00:00:00.015Z'')"
proof -
  have h1: "scenarioOrders \<noteq> []" and h2: "scenarioTrades \<noteq> []"
    by (simp_all add: scenarioOrders_def scenarioTrades_def)
  have h3: "distinct (map order_id (orders scenarioState))"
    and h4: "distinct (map trade_id (trades scenarioState))"
    by (simp_all add: scenarioState_def demoOrder_def demoTrade_def)
  have h5: "None \<notin> set (orderTimes demoGetTime (orders scenarioState @ map snd scenarioOrders))"
    by (simp add: orderTimes_def scenarioState_def scenarioOrders_def demoOrder_def
        demoGetTime_simps)
  have h6: "None \<notin> set (tradeTimes demoGetTime (trades scenarioState @ map snd scenarioTrades))"
    by (simp add: tradeTimes_def scenarioState_def scenarioTrades_def demoTrade_def
        demoGetTime_simps)
  have lo: "orderById ''C'' (rev (map snd scenarioOrders))
              = Some (demoOrder ''C'' ''1970-01-01T00:00:00.015Z'')"
    by (simp add: scenarioOrders_def orderById_def demoOrder_def)
  have lt: "tradeById ''TC'' (rev (map snd scenarioTrades))
              = Some (demoTrade ''TC'' ''1970-01-01T00:00:00.015Z'')"
    by (simp add: scenarioTrades_def tradeById_def demoTrade_def)
  from upsert_sorted_unique [of scenarioOrders scenarioState demoGetTime scenarioTrades]
    lo lt h1 h2 h3 h4 h5 h6
  show ?thesis by simp
qed

section \<open>Marking a notification that is not there\<close>

lemma map_mark_absent:
  "\<forall>n \<in> set ns. notification_id n \<noteq> nid \<Longrightarrow>
   map (\<lambda>n. if notification_id n = nid then n\<lparr>notification_read := rd\<rparr> else n) ns = ns"
  by (induction ns) auto

text \<open>
  C4, as the code has it. When no notification of the state has the id,
  \<open>MarkNotificationRead\<close> returns the state with \<open>lastUpdated\<close> set to the clock reading and
  every other field as it was.
\<close>

theorem mark_absent_touches_lastUpdated_only:
  assumes "\<forall>n \<in> set (notifications s). notification_id n \<noteq> nid"
  shows "accountReducer gt clock s (MARK_NOTIFICATION nid rd) = s\<lparr>lastUpdated := Some clock\<rparr>"
  using map_mark_absent [OF assms] by simp

text \<open>The instance at a state with one notification and an id it does not have.\<close>

theorem mark_absent_touches_lastUpdated_only_witness:
  "''missing'' \<notin> set (map notification_id (notifications oneNotificationState))
   \<and> accountReducer demoGetTime demoClock oneNotificationState (MARK_NOTIFICATION ''missing'' True)
       = oneNotificationState\<lparr>lastUpdated := Some demoClock\<rparr>"
proof -
  have h: "\<forall>n \<in> set (notifications oneNotificationState). notification_id n \<noteq> ''missing''"
    by (simp add: oneNotificationState_def demoNotification_def)
  have p: "''missing'' \<notin> set (map notification_id (notifications oneNotificationState))"
    using h by auto
  from mark_absent_touches_lastUpdated_only [OF h] p show ?thesis by blast
qed

text \<open>
  C4 as stated fails: the result differs from the input state in \<open>lastUpdated\<close>.
\<close>

theorem mark_absent_counterexample:
  "accountReducer demoGetTime demoClock oneNotificationState (MARK_NOTIFICATION ''missing'' True)
     \<noteq> oneNotificationState"
proof
  assume "accountReducer demoGetTime demoClock oneNotificationState
            (MARK_NOTIFICATION ''missing'' True) = oneNotificationState"
  then have "lastUpdated (accountReducer demoGetTime demoClock oneNotificationState
            (MARK_NOTIFICATION ''missing'' True)) = lastUpdated oneNotificationState"
    by simp
  then show False
    by (simp add: oneNotificationState_def initialState_def)
qed

section \<open>What the reducer's result depends on\<close>

text \<open>
  C5, as the code has it. The reducer is a total function of the state, the action and
  the clock reading of the evaluation. Two evaluations on the same state and action agree
  on every field other than \<open>lastUpdated\<close>; for \<open>SetState\<close>, \<open>SetLoading\<close> and \<open>SetError\<close>,
  which do not read the clock, they agree on \<open>lastUpdated\<close> too.
\<close>

theorem reducer_depends_on_clock_only_in_lastUpdated:
  "(accountReducer gt clock s a)\<lparr>lastUpdated := u\<rparr>
     = (accountReducer gt clock' s a)\<lparr>lastUpdated := u\<rparr>
   \<and> accountReducer gt clock s (SET_STATE p) = accountReducer gt clock' s (SET_STATE p)
   \<and> accountReducer gt clock s (SET_LOADING b) = accountReducer gt clock' s (SET_LOADING b)
   \<and> accountReducer gt clock s (SET_ERROR e) = accountReducer gt clock' s (SET_ERROR e)"
  by (cases a) (simp_all add: Let_def)

text \<open>
  C5 as stated fails: two evaluations on the same state and action, an hour apart, return
  different states.
\<close>

theorem reducer_deterministic_counterexample:
  "accountReducer demoGetTime ''2024-03-01T12:00:00.000Z'' initialState (UPSERT_BALANCES [])
     \<noteq> accountReducer demoGetTime ''2024-03-01T11:00:00.000Z'' initialState (UPSERT_BALANCES [])"
proof
  assume "accountReducer demoGetTime ''2024-03-01T12:00:00.000Z'' initialState (UPSERT_BALANCES [])
     = accountReducer demoGetTime ''2024-03-01T11:00:00.000Z'' initialState (UPSERT_BALANCES [])"
  then have "lastUpdated (accountReducer demoGetTime ''2024-03-01T12:00:00.000Z'' initialState (UPSERT_BALANCES []))
     = lastUpdated (accountReducer demoGetTime ''2024-03-01T11:00:00.000Z'' initialState (UPSERT_BALANCES []))"
    by simp
  then show False by simp
qed

section \<open>Upserting a position twice\<close>

lemma positions_upsert:
  "positions (accountReducer gt clock s (UPSERT_POSITION p)) = upsertPosition (positions s) p"
  by (simp add: upsertPosition_def Let_def)

lemma upsertPosition_Nil: "upsertPosition [] p = [p]"
  by (simp add: upsertPosition_def)

lemma upsertPosition_Cons:
  "upsertPosition (q # ps) p =
     (if position_symbol q = position_symbol p then p # ps else q # upsertPosition ps p)"
  by (auto simp: upsertPosition_def Let_def nat_add_distrib)

lemma positionsFor_upsert:
  "positionsFor (position_symbol p) (upsertPosition ps p)
     = (case positionsFor (position_symbol p) ps of [] \<Rightarrow> [p] | q # qs \<Rightarrow> p # qs)"
proof (induction ps)
  case Nil
  then show ?case by (simp add: upsertPosition_Nil positionsFor_def)
next
  case (Cons q ps)
  then show ?case
    by (simp add: upsertPosition_Cons positionsFor_def)
qed

text \<open>
  C9, as the code has it. In a state that holds at most one position under a symbol, two
  \<open>UpsertPosition\<close> actions in sequence that carry this symbol leave exactly one position
  under it: the payload of the second.
\<close>

theorem upsert_position_twice:
  assumes "length (positionsFor (position_symbol p2) (positions s)) \<le> 1"
    and "position_symbol p1 = position_symbol p2"
  shows "positionsFor (position_symbol p2)
           (positions (dispatchAll gt s [(c1, UPSERT_POSITION p1), (c2, UPSERT_POSITION p2)]))
         = [p2]"
proof -
  let ?sym = "position_symbol p2"
  have one: "positionsFor ?sym (upsertPosition (positions s) p1) = [p1]"
    using positionsFor_upsert [of p1 "positions s"] assms
    by (cases "positionsFor ?sym (positions s)") auto
  have "positionsFor ?sym (upsertPosition (upsertPosition (positions s) p1) p2) = [p2]"
    using positionsFor_upsert [of p2 "upsertPosition (positions s) p1"] one by simp
  then show ?thesis by (simp only: dispatchAll.simps positions_upsert)
qed

text \<open>The scenario of the specification: \<open>BTC/USDT\<close> twice, with different mark prices.\<close>

theorem upsert_position_twice_witness:
  "length (positionsFor (position_symbol (demoPosition ''BTC/USDT'' 38250))
      (positions (initialState\<lparr>positions := [demoPosition ''BTC/USDT'' 38000]\<rparr>))) \<le> 1
   \<and> position_symbol (demoPosition ''BTC/USDT'' 38100)
       = position_symbol (demoPosition ''BTC/USDT'' 38250)
   \<and> positionsFor ''BTC/USDT''
        (positions (dispatchAll demoGetTime
           (initialState\<lparr>positions := [demoPosition ''BTC/USDT'' 38000]\<rparr>)
           [(demoClock, UPSERT_POSITION (demoPosition ''BTC/USDT'' 38100)),
            (demoClock, UPSERT_POSITION (demoPosition ''BTC/USDT'' 38250))]))
       = [demoPosition ''BTC/USDT'' 38250]"
proof -
  have h1: "length (positionsFor (position_symbol (demoPosition ''BTC/USDT'' 38250))
      (positions (initialState\<lparr>positions := [demoPosition ''BTC/USDT'' 38000]\<rparr>))) \<le> 1"
    by (simp add: positionsFor_def)
  have h2: "position_symbol (demoPosition ''BTC/USDT'' 38100)
       = position_symbol (demoPosition ''BTC/USDT'' 38250)"
    by (simp add: demoPosition_def)
  have sym: "position_symbol (demoPosition ''BTC/USDT'' 38250) = ''BTC/USDT''"
    by (simp add: demoPosition_def)
  from upsert_position_twice [OF h1 h2, of demoGetTime demoClock demoClock] h1 h2
  show ?thesis unfolding sym by blast
qed

text \<open>
  C9 as stated fails: in a state that holds the symbol twice, only the first of the two
  entries is replaced, and two entries remain.
\<close>

theorem upsert_position_twice_counterexample:
  "positionsFor ''BTC/USDT''
     (positions (dispatchAll demoGetTime twoPositionsState
        [(demoClock, UPSERT_POSITION (demoPosition ''BTC/USDT'' 38200)),
         (demoClock, UPSERT_POSITION (demoPosition ''BTC/USDT'' 38250))]))
   = [demoPosition ''BTC/USDT'' 38250, demoPosition ''BTC/USDT'' 38100]"
  by (simp add: twoPositionsState_def positionsFor_def demoPosition_def initialState_def)

section \<open>The routing of realtime messages\<close>

lemma recognised_constructor:
  "messageType m \<notin> set recognisedTypes \<Longrightarrow> \<exists>t. m = Other_message t"
  by (cases m) (simp_all add: recognisedTypes_def)

text \<open>
  C7. The handler applies to the store's state exactly the action the routing table gives
  for the message (replace balances, upsert position, upsert order, upsert trade, set
  risk, add notification), and a message whose type is none of the six leaves the account
  state, and the module variables, unchanged.
\<close>

theorem realtime_routing:
  "account (handleRealtimeMessage rt clock m w)
     = (case routingTable m of
          Some a \<Rightarrow> accountReducer (getTime rt) clock (account w) a
        | None \<Rightarrow> account w)
   \<and> (messageType m \<notin> set recognisedTypes \<longrightarrow> handleRealtimeMessage rt clock m w = w)"
proof
  show "account (handleRealtimeMessage rt clock m w)
     = (case routingTable m of
          Some a \<Rightarrow> accountReducer (getTime rt) clock (account w) a
        | None \<Rightarrow> account w)"
    by (cases m) (simp_all add: dispatch_def)
  show "messageType m \<notin> set recognisedTypes \<longrightarrow> handleRealtimeMessage rt clock m w = w"
    using recognised_constructor [of m] by auto
qed

text \<open>The instance at a message of type \<open>heartbeat\<close>, and at a balance update.\<close>

theorem realtime_routing_witness:
  "messageType (Other_message ''heartbeat'') \<notin> set recognisedTypes
   \<and> handleRealtimeMessage demoRuntime demoClock (Other_message ''heartbeat'') demoWorld
       = demoWorld
   \<and> account (handleRealtimeMessage demoRuntime demoClock (Balance_update mockBalances) demoWorld)
       = accountReducer demoGetTime demoClock initialState (UPSERT_BALANCES mockBalances)"
proof -
  have h: "messageType (Other_message ''heartbeat'') \<notin> set recognisedTypes"
    by (simp add: recognisedTypes_def)
  have a: "account demoWorld = initialState" "getTime demoRuntime = demoGetTime"
    by (simp_all add: demoWorld_def demoRuntime_def)
  from realtime_routing [of demoRuntime demoClock "Other_message ''heartbeat''" demoWorld] h
  have 1: "handleRealtimeMessage demoRuntime demoClock (Other_message ''heartbeat'') demoWorld
       = demoWorld" by blast
  from realtime_routing [of demoRuntime demoClock "Balance_update mockBalances" demoWorld]
  have 2: "account (handleRealtimeMessage demoRuntime demoClock (Balance_update mockBalances) demoWorld)
       = accountReducer demoGetTime demoClock initialState (UPSERT_BALANCES mockBalances)"
    unfolding a by simp
  from h 1 2 show ?thesis by blast
qed

section \<open>Toggling a strategy that is not in the list\<close>

text \<open>
  C10. For a strategy id that no item of the current strategies list has,
  \<open>toggleStrategyStatus\<close> calls \<open>updateStrategyStatus\<close> with the status \<open>running\<close> for that
  id and replaces the strategies slice with the list the call returns: the list the
  remote mutation answers with, when it answers.
\<close>

theorem toggle_absent_requests_running:
  assumes "strategyId \<notin> set (map strategy_id (strategies (account w)))"
  shows "strategies (account (toggleStrategyStatus rt r clock clock' strategyId w))
           = fst (updateStrategyStatus r clock strategyId running (cached w))
       \<and> (r_strategyStatus r strategyId running = Inr d \<longrightarrow>
            strategies (account (toggleStrategyStatus rt r clock clock' strategyId w)) = d)"
proof -
  have none: "find (\<lambda>item. strategy_id item = strategyId) (strategies (account w)) = None"
    using assms by (auto simp: find_None_iff)
  have 1: "strategies (account (toggleStrategyStatus rt r clock clock' strategyId w))
           = fst (updateStrategyStatus r clock strategyId running (cached w))"
    by (simp add: toggleStrategyStatus_def none dispatch_def split: prod.splits)
  have 2: "r_strategyStatus r strategyId running = Inr d \<Longrightarrow>
        fst (updateStrategyStatus r clock strategyId running (cached w)) = d"
    by (simp add: updateStrategyStatus_def safeRequest_def)
  from 1 2 show ?thesis by simp
qed

text \<open>The instance at the empty initial list and a remote that answers.\<close>

theorem toggle_absent_requests_running_witness:
  "''strat-404'' \<notin> set (map strategy_id (strategies (account demoWorld)))
   \<and> r_strategyStatus answeringRemote ''strat-404'' running
       = Inr [demoStrategy ''strat-404'' running]
   \<and> strategies (account (toggleStrategyStatus demoRuntime answeringRemote demoClock demoClock
        ''strat-404'' demoWorld)) = [demoStrategy ''strat-404'' running]"
proof -
  have h: "''strat-404'' \<notin> set (map strategy_id (strategies (account demoWorld)))"
    by (simp add: demoWorld_def initialState_def)
  have a: "r_strategyStatus answeringRemote ''strat-404'' running
       = Inr [demoStrategy ''strat-404'' running]"
    by (simp add: answeringRemote_def)
  from toggle_absent_requests_running [OF h, of demoRuntime answeringRemote demoClock demoClock
      "[demoStrategy ''strat-404'' running]"] a h
  show ?thesis by blast
qed

section \<open>The initial load when every fetch fails\<close>

lemma safeRequest_fails: "isl (request c) \<Longrightarrow> safeRequest request fallback c = fallback c"
  by (cases "request c") (simp_all add: safeRequest_def)

lemma responseData_fails: "isl response \<Longrightarrow> isl (responseData response c)"
  by (cases response) (simp_all add: responseData_def)

lemma getInitialAccountState_all_fail:
  assumes "allFetchesFail r"
  shows "getInitialAccountState rt r c =
     Inr (emptyPatch\<lparr> p_balance := Some mockBalances,
            p_positions := Some (mockPositions (toISOString rt) (loadTime rt)),
            p_orders := Some (getMockOrders (getTime rt) (toISOString rt) (loadTime rt) None),
            p_trades := Some (getMockTrades (getTime rt) (toISOString rt) (loadTime rt) None),
            p_performance := Some (Some (getMockPerformance PR_ALL)),
            p_assetHistory := Some (getMockAssetHistory rt R_1M),
            p_tradeStats := Some (Some (getMockTradeStatistics (heatmapCells rt) None)),
            p_strategies := Some (strategyCache c),
            p_risk := Some (Some (riskCache c)),
            p_notifications := Some (mockNotifications (toISOString rt) (loadTime rt)) \<rparr>, c)"
proof -
  from assms have f: "isl (r_balance r)" "isl (r_positions r)" "isl (r_orders r None)"
    "isl (r_trades r None)" "isl (r_performance r PR_ALL)" "isl (r_assetHistory r R_1M)"
    "isl (r_tradeStats r None)" "isl (r_strategies r)" "isl (r_risk r)"
    "isl (r_notifications r)"
    by (simp_all add: allFetchesFail_def)
  have 1: "getAccountBalance r c = (mockBalances, c)"
    by (simp add: getAccountBalance_def safeRequest_fails responseData_fails f always_def)
  have 2: "getPositions rt r c = (mockPositions (toISOString rt) (loadTime rt), c)"
    by (simp add: getPositions_def safeRequest_fails responseData_fails f always_def)
  have 3: "getOrderHistory rt r None c
             = (getMockOrders (getTime rt) (toISOString rt) (loadTime rt) None, c)"
    by (simp add: getOrderHistory_def safeRequest_fails responseData_fails f always_def)
  have 4: "getTradeHistory rt r None c
             = (getMockTrades (getTime rt) (toISOString rt) (loadTime rt) None, c)"
    by (simp add: getTradeHistory_def safeRequest_fails responseData_fails f always_def)
  have 5: "getPerformanceMetrics r PR_ALL c = (getMockPerformance PR_ALL, c)"
    by (simp add: getPerformanceMetrics_def safeRequest_fails responseData_fails f always_def)
  have 6: "getAssetHistory rt r R_1M c = (getMockAssetHistory rt R_1M, c)"
    by (simp add: getAssetHistory_def safeRequest_fails responseData_fails f always_def)
  have 7: "getTradeStatistics rt r None c = (getMockTradeStatistics (heatmapCells rt) None, c)"
    by (simp add: getTradeStatistics_def safeRequest_fails responseData_fails f always_def)
  have 8: "getStrategies r c = (strategyCache c, c)"
    using f(8) by (cases "r_strategies r") (simp_all add: getStrategies_def safeRequest_def)
  have 9: "getRiskMetrics r c = (riskCache c, c)"
    using f(9) by (cases "r_risk r") (simp_all add: getRiskMetrics_def safeRequest_def)
  have 10: "getNotifications rt r c = (mockNotifications (toISOString rt) (loadTime rt), c)"
    by (simp add: getNotifications_def safeRequest_fails responseData_fails f always_def)
  show ?thesis
    by (simp add: getInitialAccountState_def 1 2 3 4 5 6 7 8 9 10)
qed

lemma load_all_fail_strategies:
  assumes "allFetchesFail r"
  shows "strategies (account (loadInitialData rt r clock w)) = strategyCache (cached w)"
    and "cached (loadInitialData rt r clock w) = cached w"
  unfolding loadInitialData_def setLoading_def dispatch_def Let_def
  by (simp_all add: getInitialAccountState_all_fail [OF assms] spreadState_def orElse_def
      emptyPatch_def)

lemma getMockOrders_None: "getMockOrders gt toISO now None = baseOrders toISO now"
  by (simp add: getMockOrders_def optField_def withinRange_def truthy_def)

lemma getMockTrades_None: "getMockTrades gt toISO now None = baseTrades toISO now"
  by (simp add: getMockTrades_def optField_def withinRange_def truthy_def)

text \<open>
  C2, as the code has it. When every request of the initial load throws,
  \<open>loadInitialData\<close> ends with \<open>loading\<close> false and \<open>error\<close> null, and each slice is the
  fallback of its resource: the mock balances, positions and notifications, the mock
  orders and trades under no filter, the mock performance for \<open>ALL\<close>, the mock asset
  history for \<open>1M\<close>, the mock trade statistics, and for strategies and risk the current
  content of the module's two caches. When the caches are as the module starts them, these
  two slices are the mock strategies and the mock risk metrics.
\<close>

theorem load_initial_all_fail:
  assumes "allFetchesFail r"
  shows "loading (account (loadInitialData rt r clock w)) = False
       \<and> error (account (loadInitialData rt r clock w)) = None
       \<and> balance (account (loadInitialData rt r clock w)) = mockBalances
       \<and> positions (account (loadInitialData rt r clock w))
           = mockPositions (toISOString rt) (loadTime rt)
       \<and> orders (account (loadInitialData rt r clock w))
           = getMockOrders (getTime rt) (toISOString rt) (loadTime rt) None
       \<and> trades (account (loadInitialData rt r clock w))
           = getMockTrades (getTime rt) (toISOString rt) (loadTime rt) None
       \<and> performance (account (loadInitialData rt r clock w)) = Some (getMockPerformance PR_ALL)
       \<and> assetHistory (account (loadInitialData rt r clock w)) = getMockAssetHistory rt R_1M
       \<and> tradeStats (account (loadInitialData rt r clock w))
           = Some (getMockTradeStatistics (heatmapCells rt) None)
       \<and> strategies (account (loadInitialData rt r clock w)) = strategyCache (cached w)
       \<and> risk (account (loadInitialData rt r clock w)) = Some (riskCache (cached w))
       \<and> notifications (account (loadInitialData rt r clock w))
           = mockNotifications (toISOString rt) (loadTime rt)
       \<and> cached (loadInitialData rt r clock w) = cached w
       \<and> (cached w = initialCaches (toISOString rt) (loadTime rt) \<longrightarrow>
            strategies (account (loadInitialData rt r clock w))
              = mockStrategies (toISOString rt) (loadTime rt)
          \<and> risk (account (loadInitialData rt r clock w))
              = Some (mockRiskMetrics (toISOString rt) (loadTime rt)))"
  unfolding loadInitialData_def setLoading_def dispatch_def Let_def
  by (simp add: getInitialAccountState_all_fail [OF assms] spreadState_def orElse_def
      emptyPatch_def initialCaches_def)

text \<open>The instance at the page as it starts, with a remote whose every call fails.\<close>

theorem load_initial_all_fail_witness:
  "allFetchesFail failingRemote
   \<and> cached demoWorld = initialCaches demoToISO demoNow
   \<and> loading (account (loadInitialData demoRuntime failingRemote demoClock demoWorld)) = False
   \<and> error (account (loadInitialData demoRuntime failingRemote demoClock demoWorld)) = None
   \<and> balance (account (loadInitialData demoRuntime failingRemote demoClock demoWorld))
       = mockBalances
   \<and> orders (account (loadInitialData demoRuntime failingRemote demoClock demoWorld))
       = baseOrders demoToISO demoNow
   \<and> trades (account (loadInitialData demoRuntime failingRemote demoClock demoWorld))
       = baseTrades demoToISO demoNow
   \<and> strategies (account (loadInitialData demoRuntime failingRemote demoClock demoWorld))
       = mockStrategies demoToISO demoNow
   \<and> risk (account (loadInitialData demoRuntime failingRemote demoClock demoWorld))
       = Some (mockRiskMetrics demoToISO demoNow)"
proof -
  have h: "allFetchesFail failingRemote"
    by (simp add: allFetchesFail_def failingRemote_def)
  have rt: "getTime demoRuntime = demoGetTime" "toISOString demoRuntime = demoToISO"
    "loadTime demoRuntime = demoNow"
    by (simp_all add: demoRuntime_def)
  have c: "cached demoWorld = initialCaches demoToISO demoNow"
    by (simp add: demoWorld_def)
  from load_initial_all_fail [OF h, of demoRuntime demoClock demoWorld] h c
  show ?thesis
    unfolding rt getMockOrders_None getMockTrades_None by blast
qed

text \<open>
  C2 as stated fails: after a first load, a toggle of \<open>strat-001\<close> whose request fails, and
  a second load, every fetch failing, the strategies slice has \<open>strat-001\<close> stopped, where
  the mock strategies have it running.
\<close>

theorem load_initial_all_fail_counterexample:
  "allFetchesFail failingRemote
   \<and> map strategy_status (strategies (account reloadedWorld)) = [stopped, paused, stopped]
   \<and> map strategy_status (mockStrategies demoToISO demoNow) = [running, paused, stopped]
   \<and> strategies (account reloadedWorld) \<noteq> mockStrategies demoToISO demoNow"
proof -
  have h: "allFetchesFail failingRemote"
    by (simp add: allFetchesFail_def failingRemote_def)
  define w1 where "w1 = loadInitialData demoRuntime failingRemote demoClock demoWorld"
  define w2 where
    "w2 = toggleStrategyStatus demoRuntime failingRemote demoClock demoClock ''strat-001'' w1"
  have s1: "strategies (account w1) = mockStrategies demoToISO demoNow"
    and c1: "strategyCache (cached w1) = mockStrategies demoToISO demoNow"
    unfolding w1_def
    using load_all_fail_strategies [OF h, of demoRuntime demoClock demoWorld]
    by (simp_all add: demoWorld_def initialCaches_def)
  have f: "r_strategyStatus failingRemote ''strat-001'' stopped = Inl ''Network Error''"
    by (simp add: failingRemote_def)
  have n: "find (\<lambda>item. strategy_id item = ''strat-001'') (mockStrategies demoToISO demoNow)
             = Some (hd (mockStrategies demoToISO demoNow))"
    "strategy_status (hd (mockStrategies demoToISO demoNow)) = running"
    by (simp_all add: mockStrategies_def)
  have u: "strategyCache (snd (updateStrategyStatus failingRemote demoClock ''strat-001'' stopped
               (cached w1)))
           = map (\<lambda>strategy.
                    if strategy_id strategy = ''strat-001''
                    then strategy\<lparr>strategy_status := stopped, strategy_lastUpdated := demoClock\<rparr>
                    else strategy)
                 (mockStrategies demoToISO demoNow)"
    by (simp add: updateStrategyStatus_def safeRequest_def f c1 Let_def)
  have t: "cached w2
           = snd (updateStrategyStatus failingRemote demoClock ''strat-001'' stopped (cached w1))"
    unfolding w2_def
    by (simp add: toggleStrategyStatus_def s1 n dispatch_def Let_def split: prod.splits)
  have c2: "map strategy_status (strategyCache (cached w2)) = [stopped, paused, stopped]"
    unfolding t u by (simp add: mockStrategies_def)
  have r: "strategies (account reloadedWorld) = strategyCache (cached w2)"
    unfolding reloadedWorld_def w2_def w1_def by (rule load_all_fail_strategies(1) [OF h])
  have m: "map strategy_status (mockStrategies demoToISO demoNow) = [running, paused, stopped]"
    by (simp add: mockStrategies_def)
  have ne: "strategies (account reloadedWorld) \<noteq> mockStrategies demoToISO demoNow"
  proof
    assume "strategies (account reloadedWorld) = mockStrategies demoToISO demoNow"
    then have "map strategy_status (strategyCache (cached w2))
                 = map strategy_status (mockStrategies demoToISO demoNow)"
      using r by simp
    then show False unfolding c2 m by simp
  qed
  from h c2 m ne show ?thesis unfolding r by blast
qed

section \<open>The filter contract of the fallback trades\<close>






section \<open>Reconnecting and disconnecting\<close>

text \<open>
  The plain JavaScript class, in any state: \<open>disconnect()\<close> leaves the pending timeouts as
  they are, and every close event adds one.
\<close>

lemma js_disconnect_timeouts: "timeouts (js_disconnect t) = timeouts t"
  by (simp add: js_disconnect_def closeSocket_def split: option.splits)

lemma js_onclose_timeouts:
  "timeouts (js_socketCloses i t) = timeouts t @ [(nextHandle t, reconnectInterval)]"
  by (simp add: js_socketCloses_def js_onclose_def setTimeout_def emit_def)

lemma cancel_tracked:
  assumes "list_all (\<lambda>(h, delay). reconnectTimer u = Some h \<and> h \<noteq> 0) (timeouts u)"
  shows "timeouts (case reconnectTimer u of
                     Some h \<Rightarrow> if timerSet (Some h) then clearTimeout h u else u
                   | None \<Rightarrow> u) = []"
proof (cases "timeouts u")
  case Nil
  then show ?thesis
    by (simp add: clearTimeout_def split: option.splits)
next
  case (Cons p ps)
  obtain h d where p: "p = (h, d)" by (cases p)
  from assms Cons p have h: "reconnectTimer u = Some h" "h \<noteq> 0"
    by simp_all
  from assms h(1) have "\<forall>q \<in> set (timeouts u). fst q = h"
    by (auto simp: list_all_iff)
  then have "filter (\<lambda>(h', delay). h' \<noteq> h) (timeouts u) = []"
    by (auto simp: filter_empty_conv)
  then show ?thesis
    by (simp add: h timerSet_def clearTimeout_def)
qed

lemma nextHandle_cancel:
  "nextHandle (case reconnectTimer u of
                 Some h \<Rightarrow> if timerSet (Some h) then clearTimeout h u else u
               | None \<Rightarrow> u) = nextHandle u"
  by (simp add: clearTimeout_def split: option.splits)

lemma scheduleReconnect_tracked:
  assumes "list_all (\<lambda>(h, delay). reconnectTimer u = Some h \<and> h \<noteq> 0) (timeouts u)"
  shows "timeouts (scheduleReconnect u) = [(nextHandle u, 5000)]"
    and "reconnectTimer (scheduleReconnect u) = Some (nextHandle u)"
  using cancel_tracked [OF assms] nextHandle_cancel [of u]
  by (simp_all add: scheduleReconnect_def setTimeout_def reconnectInterval_def Let_def)

text \<open>
  The TypeScript class: on a client whose pending timeouts are tracked and on which
  \<open>disconnect()\<close> was never called, a close event leaves exactly one pending reconnect, due
  after 5000 ms, and \<open>disconnect()\<close> leaves none.
\<close>

lemma ts_close_disconnect:
  assumes "tracked t" and "\<not> manualClose t"
  shows "timeouts (ts_socketCloses i t) = [(nextHandle t, 5000)]"
    and "timeouts (ts_disconnect (ts_socketCloses i t)) = []"
proof -
  from assms(1) have pos: "0 < nextHandle t"
    and all: "list_all (\<lambda>(h, delay). reconnectTimer t = Some h \<and> h \<noteq> 0) (timeouts t)"
    by (simp_all add: tracked_def)
  let ?u = "emit ''close'' (t\<lparr>sockets := (sockets t)[i := CLOSED]\<rparr>)"
  have u: "list_all (\<lambda>(h, delay). reconnectTimer ?u = Some h \<and> h \<noteq> 0) (timeouts ?u)"
    using all by (simp add: emit_def)
  have n: "nextHandle ?u = nextHandle t" and m: "\<not> manualClose ?u"
    using assms(2) by (simp_all add: emit_def)
  have c: "ts_socketCloses i t = scheduleReconnect ?u"
    using m by (simp add: ts_socketCloses_def ts_onclose_def Let_def)
  show 1: "timeouts (ts_socketCloses i t) = [(nextHandle t, 5000)]"
    unfolding c scheduleReconnect_tracked(1) [OF u] n by (rule refl)
  have 2: "reconnectTimer (ts_socketCloses i t) = Some (nextHandle t)"
    unfolding c scheduleReconnect_tracked(2) [OF u] n by (rule refl)
  show "timeouts (ts_disconnect (ts_socketCloses i t)) = []"
    using 1 2 pos
    by (simp add: ts_disconnect_def Let_def timerSet_def clearTimeout_def closeSocket_def
        split: option.splits)
qed

text \<open>
  A new client is tracked, and a tracked client stays tracked under each of its methods
  and under each event of the browser.
\<close>

lemma tracked_new: "tracked ts_new"
  by (simp add: tracked_def ts_new_def)

lemma tracked_scheduleReconnect:
  assumes "tracked t"
  shows "tracked (scheduleReconnect t)"
proof -
  from assms have all: "list_all (\<lambda>(h, delay). reconnectTimer t = Some h \<and> h \<noteq> 0) (timeouts t)"
    and pos: "0 < nextHandle t"
    by (simp_all add: tracked_def)
  have n: "nextHandle (scheduleReconnect t) = Suc (nextHandle t)"
    using nextHandle_cancel [of t]
    by (simp add: scheduleReconnect_def setTimeout_def Let_def)
  show ?thesis
    unfolding tracked_def scheduleReconnect_tracked [OF all] n
    using pos by simp
qed

lemma tracked_emit: "tracked (emit e t) = tracked t"
  by (simp add: tracked_def emit_def)

lemma tracked_sockets: "tracked (t\<lparr>sockets := ss\<rparr>) = tracked t"
  by (simp add: tracked_def)

lemma tracked_connect:
  assumes "tracked t"
  shows "tracked (ts_connect throws t)"
proof -
  have a: "tracked (scheduleReconnect t)"
    using assms by (rule tracked_scheduleReconnect)
  have b: "tracked (case newWebSocket t of (i, t') \<Rightarrow> t'\<lparr>ws := Some i\<rparr>)"
    using assms by (simp add: newWebSocket_def tracked_def)
  show ?thesis
    using assms a b by (simp add: ts_connect_def)
qed

lemma tracked_socketOpens: "tracked t \<Longrightarrow> tracked (ts_socketOpens i t)"
  by (simp add: ts_socketOpens_def ts_onopen_def tracked_emit tracked_sockets)

lemma tracked_socketCloses: "tracked t \<Longrightarrow> tracked (ts_socketCloses i t)"
  by (simp add: ts_socketCloses_def ts_onclose_def Let_def tracked_emit tracked_sockets
      tracked_scheduleReconnect)

lemma tracked_clear: "tracked t \<Longrightarrow> tracked (clearTimeout h t)"
  by (auto simp: tracked_def clearTimeout_def list_all_iff)

lemma tracked_disconnect: "tracked t \<Longrightarrow> tracked (ts_disconnect t)"
proof -
  assume t: "tracked t"
  then have all: "list_all (\<lambda>(h, delay). reconnectTimer t = Some h \<and> h \<noteq> 0) (timeouts t)"
    and pos: "0 < nextHandle t"
    by (simp_all add: tracked_def)
  have "timeouts (ts_disconnect t) = []"
    using cancel_tracked [OF all]
    by (auto simp: ts_disconnect_def Let_def timerSet_def clearTimeout_def closeSocket_def
        split: option.splits)
  moreover have "nextHandle (ts_disconnect t) = nextHandle t"
    by (auto simp: ts_disconnect_def Let_def timerSet_def clearTimeout_def closeSocket_def
        split: option.splits)
  ultimately show ?thesis using pos by (simp add: tracked_def)
qed

lemma tracked_timeoutFires: "tracked t \<Longrightarrow> tracked (ts_timeoutFires throws h t)"
  by (simp add: ts_timeoutFires_def tracked_connect tracked_clear)

text \<open>The same at a client that has just opened.\<close>

lemma ts_disconnect_cancels:
  "timeouts (ts_disconnect (ts_socketCloses 0 tsOpenTransport)) = []
   \<and> timeouts (ts_socketCloses 0 tsOpenTransport) = [(1, 5000)]"
  by (simp add: tsOpenTransport_def ts_new_def ts_connect_def ts_socketOpens_def
      ts_onopen_def ts_socketCloses_def ts_onclose_def ts_disconnect_def scheduleReconnect_def
      timerSet_def newWebSocket_def setTimeout_def clearTimeout_def closeSocket_def
      readyStateOf_def emit_def reconnectInterval_def Let_def)

text \<open>
  \<open>manualClose\<close> is never reset: a client of the TypeScript class that is connected again
  after \<open>disconnect()\<close> schedules no reconnect when its socket closes.
\<close>

lemma ts_reused_client_schedules_nothing:
  "ts_isOpen (ts_socketOpens 1 (ts_connect False (ts_disconnect tsOpenTransport)))
   \<and> timeouts (ts_socketCloses 1
        (ts_socketOpens 1 (ts_connect False (ts_disconnect tsOpenTransport)))) = []"
  by (simp add: tsOpenTransport_def ts_new_def ts_connect_def ts_socketOpens_def
      ts_onopen_def ts_socketCloses_def ts_onclose_def ts_disconnect_def ts_isOpen_def
      newWebSocket_def closeSocket_def readyStateOf_def emit_def Let_def)

text \<open>
  C3. For an open transport, an unexpected close schedules exactly one reconnect, due
  after the 5 seconds of \<open>reconnectInterval\<close>, and \<open>disconnect()\<close> before it is due keeps it
  from firing. The first class of the file does the first half only: after \<open>connect()\<close>,
  the \<open>open\<close> event and the \<open>close\<close> event, one timeout of 5000 ms is pending; it is still
  pending after \<open>disconnect()\<close>, and when it fires the client constructs a second socket.
\<close>

theorem js_disconnect_leaves_reconnect_pending:
  "js_isOpen jsOpenTransport
   \<and> timeouts jsOpenTransport = []
   \<and> timeouts (js_socketCloses 0 jsOpenTransport) = [(1, 5000)]
   \<and> timeouts (js_disconnect (js_socketCloses 0 jsOpenTransport)) = [(1, 5000)]
   \<and> sockets (js_disconnect (js_socketCloses 0 jsOpenTransport)) = [CLOSED]
   \<and> sockets (js_timeoutFires False 1 (js_disconnect (js_socketCloses 0 jsOpenTransport)))
       = [CLOSED, CONNECTING]
   \<and> js_ws (js_timeoutFires False 1 (js_disconnect (js_socketCloses 0 jsOpenTransport)))
       = Some 1"
  by (simp add: jsOpenTransport_def js_isOpen_def js_new_def js_connect_def js_socketOpens_def
      js_onopen_def js_socketCloses_def js_onclose_def js_disconnect_def js_timeoutFires_def
      newWebSocket_def setTimeout_def clearTimeout_def closeSocket_def readyStateOf_def
      emit_def reconnectInterval_def)

end
